theory Spec2Isabelle
  imports Main "HOL-Library.Word" "HOL-Library.Sublist"
begin

section \<open>C strings\<close>

text \<open>
  A C string is modelled as the list of its bytes before the terminating NUL.
  \<open>CR\<close> and \<open>LF\<close> are the bytes written \<^verbatim>\<open>\r\<close> and \<^verbatim>\<open>\n\<close> in the sources.
\<close>

definition CR :: char where
  "CR = CHR 0x0D"

definition LF :: char where
  "LF = CHR 0x0A"

definition crlf :: string where
  "crlf = [CR, LF]"

text \<open>\<^verbatim>\<open>toupper\<close> and \<^verbatim>\<open>tolower\<close> in the C locale: a table over the 26 letters.\<close>

definition toupper_c :: "char \<Rightarrow> char" where
  "toupper_c c =
     (case map_of (zip ''abcdefghijklmnopqrstuvwxyz'' ''ABCDEFGHIJKLMNOPQRSTUVWXYZ'') c of
        Some u \<Rightarrow> u
      | None \<Rightarrow> c)"

definition tolower_c :: "char \<Rightarrow> char" where
  "tolower_c c =
     (case map_of (zip ''ABCDEFGHIJKLMNOPQRSTUVWXYZ'' ''abcdefghijklmnopqrstuvwxyz'') c of
        Some l \<Rightarrow> l
      | None \<Rightarrow> c)"

text \<open>
  \<^verbatim>\<open>to_upper\<close> (pop3.c): upper-cases the string in place, byte by byte, up to the NUL,
  and returns it.
\<close>

definition to_upper :: "string \<Rightarrow> string" where
  "to_upper str = map toupper_c str"

text \<open>\<^verbatim>\<open>strstr(haystack, needle)\<close>: the offset of the first occurrence, \<open>None\<close> for NULL.\<close>

fun strstr :: "string \<Rightarrow> string \<Rightarrow> nat option" where
  "strstr [] n = (if n = [] then Some 0 else None)"
| "strstr (c # cs) n = (if prefix n (c # cs) then Some 0 else map_option Suc (strstr cs n))"

text \<open>\<^verbatim>\<open>strcasecmp(a, b) == 0\<close>.\<close>

definition strcasecmp_eq :: "string \<Rightarrow> string \<Rightarrow> bool" where
  "strcasecmp_eq a b = (map tolower_c a = map tolower_c b)"

section \<open>The session pool (pop3.c)\<close>

text \<open>
  \<^verbatim>\<open>static const unsigned max_pool = 50; static unsigned pool_size = 0;
  static struct pop3 *pool = 0;\<close>
  A \<^verbatim>\<open>struct pop3 *\<close> is a session identifier, \<open>None\<close> is NULL. The chain
  \<^verbatim>\<open>pool, pool->next, ...\<close> is the list \<open>pool\<close>, head first. Of the session only the
  field \<^verbatim>\<open>references\<close> matters to the pool.
\<close>

type_synonym sid = nat

record pool_state =
  pool :: "sid list"
  pool_size :: "32 word"
  references :: "sid \<Rightarrow> 32 word"

definition max_pool :: "32 word" where
  "max_pool = 50"

definition pool_init :: pool_state where
  "pool_init = \<lparr>pool = [], pool_size = 0, references = (\<lambda>_. 0)\<rparr>"

text \<open>
  \<^verbatim>\<open>pop3_new\<close>: takes the head of the pool when there is one, else calls malloc, whose
  result is the argument \<open>malloc_ret\<close>. A non-NULL result is zeroed and gets one reference.
  \<open>pool_size\<close> is not touched.
\<close>

definition pop3_new :: "sid option \<Rightarrow> pool_state \<Rightarrow> sid option \<times> pool_state" where
  "pop3_new malloc_ret st =
     (let (ret, st1) = (case pool st of
                          [] \<Rightarrow> (malloc_ret, st)
                        | s # rest \<Rightarrow> (Some s, st\<lparr>pool := rest\<rparr>))
      in case ret of
           None \<Rightarrow> (None, st1)
         | Some r \<Rightarrow> (Some r, st1\<lparr>references := (references st1)(r := 1)\<rparr>))"

text \<open>
  \<^verbatim>\<open>pop3_destroy\<close>: with one reference left the session goes to the pool while
  \<^verbatim>\<open>pool_size < max_pool\<close>, and is freed (\<^verbatim>\<open>pop3_destroy_\<close>) otherwise; with more
  references one is dropped.
\<close>

definition pop3_destroy :: "sid option \<Rightarrow> pool_state \<Rightarrow> pool_state" where
  "pop3_destroy s st =
     (case s of
        None \<Rightarrow> st
      | Some p \<Rightarrow>
          if references st p = 1 then
            (if pool_size st < max_pool
             then st\<lparr>pool := p # pool st, pool_size := pool_size st + 1\<rparr>
             else st)
          else st\<lparr>references := (references st)(p := references st p - 1)\<rparr>)"

text \<open>Any interleaving of creations and destructions, and of new references
  (\<^verbatim>\<open>references += 1\<close> in \<^verbatim>\<open>origin_connect\<close>).\<close>

datatype pool_op = New "sid option" | Destroy "sid option" | Add_reference sid

fun pool_step :: "pool_op \<Rightarrow> pool_state \<Rightarrow> pool_state" where
  "pool_step (New malloc_ret) st = snd (pop3_new malloc_ret st)"
| "pool_step (Destroy s) st = pop3_destroy s st"
| "pool_step (Add_reference p) st = st\<lparr>references := (references st)(p := references st p + 1)\<rparr>"

definition run_pool :: "pool_op list \<Rightarrow> pool_state \<Rightarrow> pool_state" where
  "run_pool ops st = fold pool_step ops st"

section \<open>Byte buffers\<close>

text \<open>
  Modelled from the spec: buffer.c and buffer.h are not among the sources. The spec gives
  fixed backing storage with a read and a write cursor, \<open>read \<le> write \<le> capacity\<close>, the
  operations \<open>write_view\<close>, \<open>advance_write\<close>, \<open>read_view\<close>, \<open>advance_read\<close>,
  \<open>can_read\<close>, \<open>reset\<close>, and the linear discipline: the cursors go back to the origin
  when the buffer is fully drained. Cursors are offsets into \<open>data\<close>; a pointer returned by
  \<^verbatim>\<open>buffer_write_ptr\<close> or \<^verbatim>\<open>buffer_read_ptr\<close> is such an offset, with the byte count
  the C functions store through their second argument.
\<close>

record buffer =
  data :: string
  rd :: nat
  wr :: nat

definition BUFFER_SIZE :: nat where
  "BUFFER_SIZE = 2048"

definition NUL :: char where
  "NUL = CHR 0x00"

definition buffer_init :: "nat \<Rightarrow> buffer" where
  "buffer_init n = \<lparr>data = replicate n NUL, rd = 0, wr = 0\<rparr>"

definition buffer_can_read :: "buffer \<Rightarrow> bool" where
  "buffer_can_read b = (rd b < wr b)"

definition buffer_write_ptr :: "buffer \<Rightarrow> nat \<times> nat" where
  "buffer_write_ptr b = (wr b, length (data b) - wr b)"

definition buffer_write_adv :: "buffer \<Rightarrow> nat \<Rightarrow> buffer" where
  "buffer_write_adv b n = b\<lparr>wr := wr b + n\<rparr>"

definition buffer_read_ptr :: "buffer \<Rightarrow> nat \<times> nat" where
  "buffer_read_ptr b = (rd b, wr b - rd b)"

definition buffer_read_adv :: "buffer \<Rightarrow> nat \<Rightarrow> buffer" where
  "buffer_read_adv b n =
     (if rd b + n = wr b then b\<lparr>rd := 0, wr := 0\<rparr> else b\<lparr>rd := rd b + n\<rparr>)"

definition buffer_reset :: "buffer \<Rightarrow> buffer" where
  "buffer_reset b = b\<lparr>rd := 0, wr := 0\<rparr>"

definition buffer_read :: "buffer \<Rightarrow> char \<times> buffer" where
  "buffer_read b =
     (if buffer_can_read b then (data b ! rd b, buffer_read_adv b 1) else (NUL, b))"

text \<open>The bytes between the cursors: what a following \<^verbatim>\<open>send\<close> is offered.\<close>

definition readable :: "buffer \<Rightarrow> string" where
  "readable b = take (wr b - rd b) (drop (rd b) (data b))"

text \<open>\<^verbatim>\<open>while (buffer_can_read(b)) { buffer_read(b); }\<close>\<close>

function buffer_drain :: "buffer \<Rightarrow> buffer" where
  "buffer_drain b = (if buffer_can_read b then buffer_drain (snd (buffer_read b)) else b)"
  by pat_completeness auto
termination
  by (relation "measure (\<lambda>b. wr b - rd b)")
     (auto simp: buffer_read_def buffer_can_read_def buffer_read_adv_def)

text \<open>
  Writing through a pointer into the backing array. \<open>poke\<close> is a write the kernel bounds
  by the count it was given (\<^verbatim>\<open>recv\<close>); \<open>store_bytes\<close> is a write the program does not
  bound (\<^verbatim>\<open>strcpy\<close>, \<^verbatim>\<open>sprintf\<close>), which runs past the end of the array when the bytes
  do not fit: that is \<open>None\<close>.
\<close>

definition poke :: "nat \<Rightarrow> string \<Rightarrow> string \<Rightarrow> string" where
  "poke off bytes mem = take off mem @ bytes @ drop (off + length bytes) mem"

definition store_bytes :: "nat \<Rightarrow> string \<Rightarrow> string \<Rightarrow> string option" where
  "store_bytes off bytes mem =
     (if off + length bytes \<le> length mem then Some (poke off bytes mem) else None)"

text \<open>\<^verbatim>\<open>strcpy(ptr, str)\<close> into a buffer's array at offset \<open>off\<close>: the string and its NUL.\<close>

definition strcpy_at :: "nat \<Rightarrow> string \<Rightarrow> buffer \<Rightarrow> buffer option" where
  "strcpy_at off str b = map_option (\<lambda>m. b\<lparr>data := m\<rparr>) (store_bytes off (str @ [NUL]) (data b))"

section \<open>The selector, as the session sees it\<close>

text \<open>
  Modelled from the spec: selector.c is not among the sources. A descriptor is registered
  with an interest; \<open>set_interest\<close> changes the interest of a registered descriptor and
  fails on one that is not registered. The map holds the registered descriptors.
\<close>

datatype fd_interest = OP_NOOP | OP_READ | OP_WRITE

type_synonym fd_selector = "int \<rightharpoonup> fd_interest"

definition selector_set_interest :: "fd_selector \<Rightarrow> int \<Rightarrow> fd_interest \<Rightarrow> bool \<times> fd_selector" where
  "selector_set_interest sel fd i =
     (case sel fd of None \<Rightarrow> (False, sel) | Some _ \<Rightarrow> (True, sel(fd \<mapsto> i)))"

definition selector_unregister_fd :: "fd_selector \<Rightarrow> int \<Rightarrow> bool \<times> fd_selector" where
  "selector_unregister_fd sel fd =
     (case sel fd of None \<Rightarrow> (False, sel) | Some _ \<Rightarrow> (True, sel(fd := None)))"

text \<open>\<open>reg_ok\<close> is whether the selector has room for the descriptor.\<close>

definition selector_register :: "bool \<Rightarrow> fd_selector \<Rightarrow> int \<Rightarrow> fd_interest \<Rightarrow> bool \<times> fd_selector" where
  "selector_register reg_ok sel fd i =
     (if reg_ok \<and> sel fd = None then (True, sel(fd \<mapsto> i)) else (False, sel))"

text \<open>The results of the system calls are inputs of the model.\<close>

datatype recv_in = Recv_fail | Recv string

datatype send_in = Send_fail | Send nat

text \<open>\<^verbatim>\<open>recv(fd, ptr, count, 0)\<close>: \<open>None\<close> is -1, else the bytes stored, at most \<open>count\<close>.\<close>

definition recv :: "nat \<Rightarrow> recv_in \<Rightarrow> string option" where
  "recv count r = (case r of Recv_fail \<Rightarrow> None | Recv bytes \<Rightarrow> Some (take count bytes))"

text \<open>\<^verbatim>\<open>send(fd, ptr, count, flags)\<close>: \<open>None\<close> is -1, else the number of bytes taken.\<close>

definition send :: "nat \<Rightarrow> send_in \<Rightarrow> nat option" where
  "send count r = (case r of Send_fail \<Rightarrow> None | Send n \<Rightarrow> Some (min n count))"

section \<open>The session (pop3.c)\<close>

datatype pop3_state =
  ORIGIN_RESOLV | CONNECTING | HELLO | CAPA | REQUEST | RESPONSE
  | EXTERNAL_TRANSFORMATION | DONE | ERROR

text \<open>
  The verbs of \<^verbatim>\<open>enum pop3_cmd_id\<close> (request.h is not among the sources; the spec lists
  them). pop3.c names \<open>user\<close>, \<open>pass\<close>, \<open>capa\<close>, \<open>retr\<close> and \<open>quit\<close>.
\<close>

datatype pop3_cmd_id =
  user | pass | capa | stat | list_cmd | retr | dele | noop | rset | top_cmd | uidl | quit
  | unknown_cmd

record pop3_request =
  cmd :: pop3_cmd_id
  args :: "string option"

text \<open>
  The states of the request parser, in the order the spec gives them (request_parser.h is
  not among the sources). \<^verbatim>\<open>request_process\<close> compares with \<^verbatim>\<open>>= request_error\<close>,
  so the position in the enumeration is kept.
\<close>

datatype request_state =
  request_verb | request_sp | request_arg | request_cr | request_done
  | request_error | request_error_cmd_too_long | request_error_param_too_long

fun request_state_rank :: "request_state \<Rightarrow> nat" where
  "request_state_rank request_verb = 0"
| "request_state_rank request_sp = 1"
| "request_state_rank request_arg = 2"
| "request_state_rank request_cr = 3"
| "request_state_rank request_done = 4"
| "request_state_rank request_error = 5"
| "request_state_rank request_error_cmd_too_long = 6"
| "request_state_rank request_error_param_too_long = 7"

text \<open>
  Of \<^verbatim>\<open>enum response_state\<close> pop3.c names \<open>response_mail\<close> and \<open>response_done\<close>;
  the other enumerators are \<open>response_other k\<close>. Of \<^verbatim>\<open>struct response_parser\<close> it reads
  and writes the three fields below.
\<close>

datatype response_state = response_mail | response_done | response_other nat

record response_parser =
  rp_state :: response_state
  first_line_done :: bool
  capa_response :: string

text \<open>
  The response parser itself (response_parser.c) is not among the sources: its two entry
  points that pop3.c calls are parameters. \<open>response_consume rb wb p\<close> returns the state,
  the two buffers, the parser and the error flag it sets.
\<close>

record parser_ops =
  response_consume ::
    "buffer \<Rightarrow> buffer \<Rightarrow> response_parser \<Rightarrow>
       response_state \<times> buffer \<times> buffer \<times> response_parser \<times> bool"
  response_is_done :: "response_state \<Rightarrow> bool"

text \<open>
  \<^verbatim>\<open>struct pop3_session\<close>: the fields pop3.c uses. Modelled from the spec:
  \<^verbatim>\<open>pop3_session_init(&session, pipelining)\<close> (pop3_session.c is not among the sources)
  stores the flag it is given and starts with no invalid command and an empty queue.
\<close>

record pop3_session =
  pipelining :: bool
  concurrent_invalid_commands :: nat
  request_queue :: "pop3_request list"

definition pop3_session_init :: "bool \<Rightarrow> pop3_session" where
  "pop3_session_init p = \<lparr>pipelining = p, concurrent_invalid_commands = 0, request_queue = []\<rparr>"

text \<open>\<^verbatim>\<open>struct external_transformation\<close>, without the pointers that alias fields of the session.\<close>

datatype et_status = et_status_ok | et_status_err | et_status_done

record external_transformation =
  status :: et_status
  finish_wr :: bool
  finish_rd :: bool
  error_wr :: bool
  error_rd :: bool
  did_write :: bool
  write_error :: bool
  send_bytes_write :: nat
  send_bytes_read :: nat

text \<open>
  \<^verbatim>\<open>struct pop3\<close>, with the two things a handler reaches through its key: the selector
  \<open>sel\<close> (\<^verbatim>\<open>key->s\<close>) and, per descriptor, the bytes the peer has been sent so far
  (\<open>sent\<close>). \<open>sent s (client_fd s)\<close> is what the client has observed.
\<close>

record pop3 =
  client_fd :: int
  origin_fd :: int
  extern_read_fd :: int
  extern_write_fd :: int
  session :: pop3_session
  request :: pop3_request
  request_parser_state :: request_state
  response_parser :: response_parser
  et :: external_transformation
  read_buffer :: buffer
  write_buffer :: buffer
  super_buffer :: buffer
  extern_read_buffer :: buffer
  sel :: fd_selector
  sent :: "int \<Rightarrow> string"

datatype fault =
  Buffer_overrun | Heap_overrun | Wild_memcpy | Null_dereference | Unterminated | Bad_pointer

text \<open>
  A \<^verbatim>\<open>send\<close> whose result the source does not look at: the model takes the socket to
  accept the whole message.
\<close>

definition send_all :: "int \<Rightarrow> string \<Rightarrow> pop3 \<Rightarrow> pop3" where
  "send_all fd msg s = s\<lparr>sent := (sent s)(fd := sent s fd @ msg)\<rparr>"

text \<open>The two \<^verbatim>\<open>ss |= selector_set_interest...\<close> lines that end most handlers.\<close>

definition set_two_interests ::
  "int \<Rightarrow> fd_interest \<Rightarrow> int \<Rightarrow> fd_interest \<Rightarrow> pop3 \<Rightarrow> bool \<times> pop3" where
  "set_two_interests fd1 i1 fd2 i2 s =
     (let (ok1, sel1) = selector_set_interest (sel s) fd1 i1;
          (ok2, sel2) = selector_set_interest sel1 fd2 i2
      in (ok1 \<and> ok2, s\<lparr>sel := sel2\<rparr>))"

text \<open>\<^verbatim>\<open>selector_set_interest\<close> with its result dropped.\<close>

definition set_interest_unchecked :: "int \<Rightarrow> fd_interest \<Rightarrow> pop3 \<Rightarrow> pop3" where
  "set_interest_unchecked fd i s = s\<lparr>sel := snd (selector_set_interest (sel s) fd i)\<rparr>"

text \<open>
  The session as \<^verbatim>\<open>pop3_new\<close> fills it (\<^verbatim>\<open>memset\<close> to zero, then the fields it sets)
  and as \<^verbatim>\<open>pop3_passive_accept\<close> registers it: the client descriptor alone, for writing.
  Nothing has been sent yet.
\<close>

definition pop3_accepted :: "int \<Rightarrow> pop3" where
  "pop3_accepted cfd =
     \<lparr>client_fd = cfd, origin_fd = - 1, extern_read_fd = 0, extern_write_fd = 0,
      session = pop3_session_init False,
      request = \<lparr>cmd = unknown_cmd, args = None\<rparr>,
      request_parser_state = request_verb,
      response_parser = \<lparr>rp_state = response_other 0, first_line_done = False, capa_response = []\<rparr>,
      et = \<lparr>status = et_status_ok, finish_wr = False, finish_rd = False, error_wr = False,
            error_rd = False, did_write = False, write_error = False,
            send_bytes_write = 0, send_bytes_read = 0\<rparr>,
      read_buffer = buffer_init BUFFER_SIZE, write_buffer = buffer_init BUFFER_SIZE,
      super_buffer = buffer_init BUFFER_SIZE, extern_read_buffer = buffer_init BUFFER_SIZE,
      sel = [cfd \<mapsto> OP_WRITE], sent = (\<lambda>_. [])\<rparr>"

text \<open>
  \<^verbatim>\<open>connecting\<close>, on the new origin descriptor, when \<^verbatim>\<open>getsockopt\<close> reports no error:
  the descriptor becomes \<open>origin_fd\<close>, the session is initialised without pipelining, the
  origin is armed for reading and the client disarmed. On failure the client is sent
  \<^verbatim>\<open>-ERR Connection refused.\<close> and the state is ERROR. Either way \<open>origin_fd\<close> is set first.
\<close>

definition connecting :: "int \<Rightarrow> bool \<Rightarrow> pop3 \<Rightarrow> pop3_state \<times> pop3" where
  "connecting key_fd so_error_ok s =
     (let s1 = s\<lparr>origin_fd := key_fd\<rparr>
      in if \<not> so_error_ok then
           (ERROR, set_interest_unchecked key_fd OP_NOOP
                     (send_all (client_fd s1) (''-ERR Connection refused.'' @ crlf) s1))
         else
           let s2 = s1\<lparr>session := pop3_session_init False\<rparr>;
               (ok, s3) = set_two_interests key_fd OP_READ (client_fd s2) OP_NOOP s2
           in (if ok then HELLO else ERROR, s3))"

subsection \<open>HELLO\<close>

definition proxy_banner :: string where
  "proxy_banner = ''+OK Proxy server POP3 ready.'' @ crlf"

text \<open>
  \<^verbatim>\<open>hello_read\<close>, on the origin descriptor. The banner is copied at the write cursor and
  the cursor advanced by its length; the greeting is received behind it, and the cursor
  is then advanced by 0 (\<^verbatim>\<open>buffer_write_adv(d->wb, 0)\<close>).
\<close>

definition hello_read :: "int \<Rightarrow> recv_in \<Rightarrow> pop3 \<Rightarrow> fault + (pop3_state \<times> pop3)" where
  "hello_read key_fd rcv s =
     (let wb = write_buffer s;
          (off, count) = buffer_write_ptr wb
      in case strcpy_at off proxy_banner wb of
           None \<Rightarrow> Inl Buffer_overrun
         | Some wb0 \<Rightarrow>
             let wb1 = buffer_write_adv wb0 (length proxy_banner);
                 (off2, count2) = buffer_write_ptr wb1
             in case recv count2 rcv of
                  None \<Rightarrow> Inr (ERROR, s\<lparr>write_buffer := wb1\<rparr>)
                | Some bytes \<Rightarrow>
                    if 0 < length bytes then
                      let wb2 = buffer_write_adv (wb1\<lparr>data := poke off2 bytes (data wb1)\<rparr>) 0;
                          (ok, s1) = set_two_interests key_fd OP_NOOP (client_fd s) OP_WRITE
                                       (s\<lparr>write_buffer := wb2\<rparr>)
                      in Inr (if ok then HELLO else ERROR, s1)
                    else Inr (ERROR, s\<lparr>write_buffer := wb1\<rparr>))"

text \<open>\<^verbatim>\<open>hello_write\<close>, on the client descriptor; on leaving to CAPA it sends the origin
  \<^verbatim>\<open>CAPA\r\n\<close>.\<close>

definition hello_write :: "int \<Rightarrow> send_in \<Rightarrow> pop3 \<Rightarrow> pop3_state \<times> pop3" where
  "hello_write key_fd snd_in s =
     (let wb = write_buffer s;
          (off, count) = buffer_read_ptr wb
      in case send count snd_in of
           None \<Rightarrow> (ERROR, s)
         | Some n \<Rightarrow>
             let s1 = s\<lparr>write_buffer := buffer_read_adv wb n,
                        sent := (sent s)(key_fd := sent s key_fd @ take n (drop off (data wb)))\<rparr>
             in if \<not> buffer_can_read (write_buffer s1) then
                  let (ok, s2) = set_two_interests key_fd OP_NOOP (origin_fd s1) OP_READ s1
                  in if ok then (CAPA, send_all (origin_fd s2) (''CAPA'' @ crlf) s2)
                     else (ERROR, s2)
                else (HELLO, s1))"

text \<open>The write events of the HELLO state, one \<^verbatim>\<open>send\<close> result each, until the state is left.\<close>

fun hello_flush :: "send_in list \<Rightarrow> pop3 \<Rightarrow> pop3_state \<times> pop3" where
  "hello_flush [] s = (HELLO, s)"
| "hello_flush (x # xs) s =
     (case hello_write (client_fd s) x s of
        (HELLO, s1) \<Rightarrow> hello_flush xs s1
      | (st, s1) \<Rightarrow> (st, s1))"

subsection \<open>CAPA\<close>

definition needle :: string where
  "needle = ''PIPELINING''"

text \<open>
  \<^verbatim>\<open>set_pipelining\<close>: upper-cases the accumulated capability text in place, looks for the
  needle with \<^verbatim>\<open>strstr\<close>, and empties \<^verbatim>\<open>d->wb\<close>, which is the super buffer in this
  state (\<^verbatim>\<open>capa_init\<close>).
\<close>

definition set_pipelining :: "pop3 \<Rightarrow> pop3" where
  "set_pipelining s =
     (let capabilities = to_upper (capa_response (response_parser s))
      in s\<lparr>response_parser := (response_parser s)\<lparr>capa_response := capabilities\<rparr>,
           session := (session s)\<lparr>pipelining := (strstr capabilities needle \<noteq> None)\<rparr>,
           super_buffer := buffer_drain (super_buffer s)\<rparr>)"

text \<open>\<^verbatim>\<open>capa_read\<close>, on the origin descriptor; \<^verbatim>\<open>d->rb\<close> is the write buffer.\<close>

definition capa_read :: "parser_ops \<Rightarrow> int \<Rightarrow> recv_in \<Rightarrow> pop3 \<Rightarrow> pop3_state \<times> pop3" where
  "capa_read P key_fd rcv s =
     (let b = write_buffer s;
          (off, count) = buffer_write_ptr b
      in case recv count rcv of
           None \<Rightarrow> (ERROR, s)
         | Some bytes \<Rightarrow>
             if 0 < length bytes then
               let b1 = buffer_write_adv (b\<lparr>data := poke off bytes (data b)\<rparr>) (length bytes);
                   (st0, b2, wb2, p2, e2) = response_consume P b1 (super_buffer s) (response_parser s);
                   (st, b3, wb3, p3, e3) =
                      response_consume P b2 wb2 (p2\<lparr>first_line_done := False\<rparr>);
                   s1 = s\<lparr>write_buffer := b3, super_buffer := wb3, response_parser := p3\<rparr>
               in if response_is_done P st then
                    let (ok, s2) = set_two_interests key_fd OP_NOOP (client_fd s1) OP_READ
                                     (set_pipelining s1)
                    in (if ok then REQUEST else ERROR, s2)
                  else (CAPA, s1)
             else (ERROR, s))"

text \<open>
  What the spec calls containing the word under case-insensitive comparison: some
  stretch of the text equals the word once both are upper-cased.
\<close>

definition contains_ci :: "string \<Rightarrow> string \<Rightarrow> bool" where
  "contains_ci text w =
     list_ex (\<lambda>i. map toupper_c (take (length w) (drop i text)) = map toupper_c w)
       [0 ..< Suc (length text)]"

text \<open>The capability text the parser has accumulated when \<^verbatim>\<open>capa_read\<close> has made its two
  calls of \<^verbatim>\<open>response_consume\<close> on the bytes received.\<close>

definition capa_text :: "parser_ops \<Rightarrow> recv_in \<Rightarrow> pop3 \<Rightarrow> string" where
  "capa_text P rcv s =
     (let b = write_buffer s;
          (off, count) = buffer_write_ptr b;
          bytes = (case recv count rcv of None \<Rightarrow> [] | Some bs \<Rightarrow> bs);
          b1 = buffer_write_adv (b\<lparr>data := poke off bytes (data b)\<rparr>) (length bytes);
          (st0, b2, wb2, p2, e2) = response_consume P b1 (super_buffer s) (response_parser s);
          (st, b3, wb3, p3, e3) = response_consume P b2 wb2 (p2\<lparr>first_line_done := False\<rparr>)
      in capa_response p3)"

subsection \<open>REQUEST\<close>

definition MAX_CONCURRENT_INVALID_COMMANDS :: nat where
  "MAX_CONCURRENT_INVALID_COMMANDS = 3"

text \<open>
  \<^verbatim>\<open>request_process\<close>, on the client descriptor, once the parser has finished a request
  (\<^verbatim>\<open>request_is_done\<close>). \<open>alloc_ok\<close> is whether \<^verbatim>\<open>new_request\<close> returns non-NULL.
  \<^verbatim>\<open>queue_add\<close> appends to the queue; \<^verbatim>\<open>request_parser_init\<close> puts the parser back in
  its first state. A parser state at or after \<^verbatim>\<open>request_error\<close> that is none of the three
  cases of the switch leaves \<^verbatim>\<open>msg\<close> NULL for \<^verbatim>\<open>strlen\<close>.
\<close>

definition request_process :: "int \<Rightarrow> bool \<Rightarrow> pop3 \<Rightarrow> fault + (pop3_state \<times> pop3)" where
  "request_process key_fd alloc_ok s =
     (if request_state_rank request_error \<le> request_state_rank (request_parser_state s) then
        (case (case request_parser_state s of
                 request_error \<Rightarrow> Some (''-ERR Unknown command. (POPG)'' @ crlf)
               | request_error_cmd_too_long \<Rightarrow> Some (''-ERR Command too long.'' @ crlf)
               | request_error_param_too_long \<Rightarrow> Some (''-ERR Parameter too long.'' @ crlf)
               | _ \<Rightarrow> None) of
           None \<Rightarrow> Inl Null_dereference
         | Some msg \<Rightarrow>
             let s1 = send_all key_fd msg s;
                 s2 = s1\<lparr>session := (session s1)\<lparr>concurrent_invalid_commands :=
                            concurrent_invalid_commands (session s1) + 1\<rparr>\<rparr>;
                 cic = concurrent_invalid_commands (session s2)
             in if MAX_CONCURRENT_INVALID_COMMANDS \<le> cic then
                  Inr (DONE, send_all key_fd (''-ERR Too many invalid commands. (POPG)'' @ [LF]) s2)
                else Inr (REQUEST, s2\<lparr>request_parser_state := request_verb\<rparr>))
      else
        let s1 = s\<lparr>session := (session s)\<lparr>concurrent_invalid_commands := 0\<rparr>\<rparr>
        in if \<not> alloc_ok then Inr (ERROR, s1)
           else
             let s2 = s1\<lparr>session := (session s1)\<lparr>request_queue :=
                            request_queue (session s1) @ [request s1]\<rparr>,
                        request_parser_state := request_verb\<rparr>
             in if \<not> buffer_can_read (read_buffer s2) then
                  let (ok, s3) = set_two_interests key_fd OP_NOOP (origin_fd s2) OP_WRITE s2
                  in Inr (if ok then REQUEST else ERROR, s3)
                else Inr (REQUEST, s2))"

text \<open>
  A run of the REQUEST state over the requests the parser finishes one after the other:
  each comes with the parser's final state, the parsed request, and whether the
  allocation of the queue entry succeeds. The run stops when the state is left.
\<close>

fun request_run ::
  "(request_state \<times> pop3_request \<times> bool) list \<Rightarrow> pop3 \<Rightarrow> fault + (pop3_state \<times> pop3)" where
  "request_run [] s = Inr (REQUEST, s)"
| "request_run ((st, r, alloc_ok) # rest) s =
     (case request_process (client_fd s) alloc_ok
             (s\<lparr>request_parser_state := st, request := r\<rparr>) of
        Inl f \<Rightarrow> Inl f
      | Inr (REQUEST, s1) \<Rightarrow> request_run rest s1
      | Inr (nxt, s1) \<Rightarrow> Inr (nxt, s1))"

definition invalid_request :: "request_state \<times> pop3_request \<times> bool \<Rightarrow> bool" where
  "invalid_request x = (request_state_rank request_error \<le> request_state_rank (fst x))"

subsection \<open>RESPONSE: the rewrite of the capability list\<close>

definition eom :: string where
  "eom = crlf @ ''.'' @ crlf"

text \<open>\<^verbatim>\<open>size_t\<close> is 64 bits wide.\<close>

type_synonym size_t = "64 word"

text \<open>The C string held in a block of memory: its bytes up to the first NUL.\<close>

definition c_string :: "string \<Rightarrow> string option" where
  "c_string blk = (if NUL \<in> set blk then Some (takeWhile (\<lambda>c. c \<noteq> NUL) blk) else None)"

text \<open>
  \<^verbatim>\<open>response_process_capa\<close>; \<^verbatim>\<open>d->wb\<close> is the super buffer (\<^verbatim>\<open>response_init\<close>).
  \<open>calloc_ok\<close> is whether \<^verbatim>\<open>calloc\<close> returns non-NULL. The sizes are computed in
  \<^verbatim>\<open>size_t\<close>; the block is zeroed, and the three \<^verbatim>\<open>memcpy\<close> calls write into it, a write
  past its end being a fault. A length below 3 makes \<^verbatim>\<open>capa_length - 3\<close> wrap around, and
  the first \<^verbatim>\<open>memcpy\<close> copy that many bytes. The new text is then copied with
  \<^verbatim>\<open>strcpy\<close> at the write cursor of the emptied super buffer, whatever room there is
  (\<^verbatim>\<open>count1\<close> is not looked at).
\<close>

definition response_process_capa :: "bool \<Rightarrow> pop3 \<Rightarrow> fault + (pop3_state \<times> pop3)" where
  "response_process_capa calloc_ok s =
     (let capabilities = to_upper (capa_response (response_parser s));
          s1 = s\<lparr>response_parser := (response_parser s)\<lparr>capa_response := capabilities\<rparr>\<rparr>
      in if strstr capabilities needle \<noteq> None then Inr (RESPONSE, s1)
         else
           let capa_length = (of_nat (length capabilities) :: size_t);
               needle_length = (of_nat (length needle) :: size_t);
               eom_length = (of_nat (length eom) :: size_t);
               size = capa_length - 3 + needle_length + eom_length + 1
           in if \<not> calloc_ok then Inr (ERROR, s1)
              else if capa_length < 3 then Inl Wild_memcpy
              else
                (case Option.bind
                        (Option.bind
                           (store_bytes 0 (take (unat (capa_length - 3)) capabilities)
                              (replicate (unat size) NUL))
                           (store_bytes (unat (capa_length - 3)) needle))
                        (store_bytes (unat (capa_length - 3 + needle_length)) eom) of
                   None \<Rightarrow> Inl Heap_overrun
                 | Some blk \<Rightarrow>
                     (case c_string blk of
                        None \<Rightarrow> Inl Unterminated
                      | Some new_capa \<Rightarrow>
                          let wb = buffer_drain (super_buffer s1);
                              (off, count1) = buffer_write_ptr wb
                          in case strcpy_at off new_capa wb of
                               None \<Rightarrow> Inl Buffer_overrun
                             | Some wb1 \<Rightarrow>
                                 Inr (RESPONSE,
                                      s1\<lparr>response_parser :=
                                            (response_parser s1)\<lparr>capa_response := new_capa\<rparr>,
                                          super_buffer :=
                                            buffer_write_adv wb1 (length new_capa)\<rparr>))))"

text \<open>
  The HELLO state from the arrival of the origin's greeting \<open>g\<close> to the moment the state
  is left: \<^verbatim>\<open>hello_read\<close> on the origin descriptor, then \<^verbatim>\<open>hello_write\<close> on the client
  descriptor for each result of \<^verbatim>\<open>send\<close>. The result is the next state and everything
  the client has been sent by then.
\<close>

definition hello_state_run :: "string \<Rightarrow> send_in list \<Rightarrow> pop3 \<Rightarrow> (pop3_state \<times> string) option" where
  "hello_state_run g sends s =
     (case hello_read (origin_fd s) (Recv g) s of
        Inr (HELLO, s1) \<Rightarrow>
          (case hello_flush sends s1 of (st, s2) \<Rightarrow> Some (st, sent s2 (client_fd s)))
      | _ \<Rightarrow> None)"

section \<open>Metrics and the life of a connection (pop3.c)\<close>

text \<open>
  \<^verbatim>\<open>struct metrics\<close> (metrics.h is not among the sources): the four counters, with the
  widths of the formats that print them in the management channel (\<^verbatim>\<open>%u\<close>, \<^verbatim>\<open>%lld\<close>).
\<close>

record metrics =
  concurrent_connections :: "32 word"
  historical_access :: "32 word"
  transferred_bytes :: "64 word"
  retrieved_messages :: "32 word"

text \<open>
  Of a session, what the top-level handlers look at: the current state of its state
  machine and its two descriptors. The proxy is the metrics and the sessions created so
  far, in the order of their creation.
\<close>

record conn =
  stm_current :: pop3_state
  conn_client_fd :: int
  conn_origin_fd :: int

record proxy =
  metricas :: metrics
  conns :: "conn list"

definition proxy_init :: proxy where
  "proxy_init =
     \<lparr>metricas = \<lparr>concurrent_connections = 0, historical_access = 0, transferred_bytes = 0,
                   retrieved_messages = 0\<rparr>,
      conns = []\<rparr>"

text \<open>
  \<^verbatim>\<open>pop3_passive_accept\<close>. \<open>client\<close> is the result of \<^verbatim>\<open>accept\<close>; the flags are whether
  \<^verbatim>\<open>selector_fd_set_nio\<close>, \<^verbatim>\<open>pop3_new\<close> and \<^verbatim>\<open>selector_register\<close> succeed. Both
  counters are incremented before the result of \<^verbatim>\<open>accept\<close> is looked at. On each failure
  the descriptor is closed and the session, if any, goes back through \<^verbatim>\<open>pop3_destroy\<close>:
  no session comes to life.
\<close>

definition pop3_passive_accept :: "int \<Rightarrow> bool \<Rightarrow> bool \<Rightarrow> bool \<Rightarrow> proxy \<Rightarrow> proxy" where
  "pop3_passive_accept client nio_ok new_ok register_ok p =
     (let m = metricas p;
          p1 = p\<lparr>metricas := m\<lparr>concurrent_connections := concurrent_connections m + 1,
                                historical_access := historical_access m + 1\<rparr>\<rparr>
      in if client = - 1 then p1
         else if \<not> nio_ok then p1
         else if \<not> new_ok then p1
         else if \<not> register_ok then p1
         else p1\<lparr>conns := conns p1 @
                   [\<lparr>stm_current = ORIGIN_RESOLV, conn_client_fd = client, conn_origin_fd = - 1\<rparr>]\<rparr>)"

text \<open>
  \<^verbatim>\<open>pop3_done\<close>: the counter goes down when the session has an origin descriptor. (The
  descriptors are then unregistered and closed.)
\<close>

definition pop3_done :: "conn \<Rightarrow> metrics \<Rightarrow> metrics" where
  "pop3_done c m =
     (if conn_origin_fd c \<noteq> - 1
      then m\<lparr>concurrent_connections := concurrent_connections m - 1\<rparr>
      else m)"

text \<open>
  The events of the reactor. \<open>Accept\<close> is a readiness event of the passive socket.
  \<open>Handler i st ofd\<close> is an event of a descriptor of session \<open>i\<close>: the handler of the
  current state runs and returns \<open>st\<close>; \<open>ofd\<close> is the descriptor it stores in
  \<open>origin_fd\<close>, if it does (\<^verbatim>\<open>connecting\<close> is the handler that does). As in
  \<^verbatim>\<open>pop3_read\<close>, \<^verbatim>\<open>pop3_write\<close> and \<^verbatim>\<open>pop3_block\<close>, a result of DONE or ERROR calls
  \<^verbatim>\<open>pop3_done\<close>. A session that is done has no registered descriptor and gets no event.
\<close>

datatype event = Accept int bool bool bool | Handler nat pop3_state "int option"

definition terminal :: "pop3_state \<Rightarrow> bool" where
  "terminal st = (st = DONE \<or> st = ERROR)"

fun proxy_step :: "event \<Rightarrow> proxy \<Rightarrow> proxy" where
  "proxy_step (Accept client nio_ok new_ok register_ok) p =
     pop3_passive_accept client nio_ok new_ok register_ok p"
| "proxy_step (Handler i st ofd) p =
     (if i < length (conns p) \<and> \<not> terminal (stm_current (conns p ! i)) then
        let c = conns p ! i;
            c1 = c\<lparr>stm_current := st,
                   conn_origin_fd := (case ofd of None \<Rightarrow> conn_origin_fd c | Some fd \<Rightarrow> fd)\<rparr>
        in p\<lparr>conns := (conns p)[i := c1],
             metricas := (if terminal st then pop3_done c1 (metricas p) else metricas p)\<rparr>
      else p)"

definition proxy_run :: "event list \<Rightarrow> proxy" where
  "proxy_run evs = fold proxy_step evs proxy_init"

text \<open>The numbers the invariant is about.\<close>

definition established :: "proxy \<Rightarrow> nat" where
  "established p =
     length (filter (\<lambda>c. \<not> terminal (stm_current c) \<and> conn_origin_fd c \<noteq> - 1) (conns p))"

definition ended_with_origin :: "proxy \<Rightarrow> nat" where
  "ended_with_origin p =
     length (filter (\<lambda>c. terminal (stm_current c) \<and> conn_origin_fd c \<noteq> - 1) (conns p))"

fun is_accept :: "event \<Rightarrow> bool" where
  "is_accept (Accept _ _ _ _) = True"
| "is_accept (Handler _ _ _) = False"

definition accept_events :: "event list \<Rightarrow> nat" where
  "accept_events evs = length (filter is_accept evs)"

text \<open>
  The sessions that have not ended, and those that have ended without ever having an
  origin descriptor. An accept event succeeds when \<^verbatim>\<open>accept\<close> returns a descriptor and
  the three calls after it succeed, so that a session comes to life.
\<close>

definition live_sessions :: "proxy \<Rightarrow> nat" where
  "live_sessions p = length (filter (\<lambda>c. \<not> terminal (stm_current c)) (conns p))"

definition ended_without_origin :: "proxy \<Rightarrow> nat" where
  "ended_without_origin p =
     length (filter (\<lambda>c. terminal (stm_current c) \<and> conn_origin_fd c = - 1) (conns p))"

fun accept_succeeds :: "event \<Rightarrow> bool" where
  "accept_succeeds (Accept client nio_ok new_ok register_ok) =
     (client \<noteq> - 1 \<and> nio_ok \<and> new_ok \<and> register_ok)"
| "accept_succeeds (Handler _ _ _) = True"

subsection \<open>EXTERNAL_TRANSFORMATION\<close>

text \<open>
  What the system calls of \<^verbatim>\<open>open_external_transformation\<close> return, as seen by the
  proxy process: the descriptors of the two pipes (\<open>None\<close> when \<^verbatim>\<open>pipe\<close> fails), whether
  \<^verbatim>\<open>fork\<close> succeeds, and whether the selector and \<^verbatim>\<open>selector_fd_set_nio\<close> accept each
  of the two descriptors the proxy keeps.
\<close>

record spawn_env =
  pipe_fd_read :: "(int \<times> int) option"
  pipe_fd_write :: "(int \<times> int) option"
  fork_ok :: bool
  register_read_ok :: bool
  nio_read_ok :: bool
  register_write_ok :: bool
  nio_write_ok :: bool

text \<open>
  \<^verbatim>\<open>open_external_transformation\<close>, in the parent. The command line for the child
  is built first; it touches nothing of the session and is left out. A failed \<^verbatim>\<open>fork\<close>
  falls through to the final \<^verbatim>\<open>return et_status_err\<close>. The registration of the write
  end is undone with \<^verbatim>\<open>selector_unregister_fd(key->s, fd_write[1])\<close> when it fails.
\<close>

definition open_external_transformation :: "spawn_env \<Rightarrow> pop3 \<Rightarrow> et_status \<times> pop3" where
  "open_external_transformation env s =
     (case (pipe_fd_read env, pipe_fd_write env) of
        (Some (fd_read0, fd_read1), Some (fd_write0, fd_write1)) \<Rightarrow>
          if \<not> fork_ok env then (et_status_err, s)
          else
            let (ok_r, sel1) = selector_register (register_read_ok env) (sel s) fd_read0 OP_READ
            in if ok_r \<and> nio_read_ok env then
                 let s1 = s\<lparr>sel := sel1, extern_read_fd := fd_read0\<rparr>;
                     (ok_w, sel2) = selector_register (register_write_ok env) sel1 fd_write1 OP_WRITE
                 in if ok_w \<and> nio_write_ok env then
                      (et_status_ok, s1\<lparr>sel := sel2, extern_write_fd := fd_write1\<rparr>)
                    else
                      (et_status_err, s1\<lparr>sel := snd (selector_unregister_fd sel2 fd_write1)\<rparr>)
               else (et_status_err, s\<lparr>sel := sel1\<rparr>)
      | _ \<Rightarrow> (et_status_err, s))"

definition et_err_msg :: string where
  "et_err_msg = ''-ERR could not open external transformation.'' @ crlf"

definition et_ok_msg :: string where
  "et_ok_msg = ''+OK sending mail.'' @ crlf"

text \<open>
  \<^verbatim>\<open>parse_mail\<close> feeds the readable bytes of a buffer to a parser of pop3_multi.c, which
  is not among the sources, and puts the cursors back. Its result is a parameter of the
  model: \<open>Some i\<close> when the parser reports the end of the mail at the \<open>i\<close>-th byte.
\<close>

definition parse_mail :: "nat option \<Rightarrow> bool \<times> nat" where
  "parse_mail mail_end = (case mail_end of Some i \<Rightarrow> (True, i) | None \<Rightarrow> (False, 0))"

text \<open>
  \<^verbatim>\<open>external_transformation_init\<close>, the arrival hook of the state. \<^verbatim>\<open>et->wb\<close> is the
  extern read buffer and \<^verbatim>\<open>et->rb\<close> the write buffer. The message is written with
  \<^verbatim>\<open>sprintf\<close> at the write cursor, whatever room there is.
\<close>

definition external_transformation_init ::
  "spawn_env \<Rightarrow> nat option \<Rightarrow> pop3 \<Rightarrow> fault + pop3" where
  "external_transformation_init env mail_end s =
     (let et0 = (et s)\<lparr>finish_rd := False, finish_wr := False, error_wr := False,
                       error_rd := False, did_write := False, write_error := False,
                       send_bytes_write := 0, send_bytes_read := 0\<rparr>;
          (st, s1) = open_external_transformation env (s\<lparr>et := et0\<rparr>);
          s2 = s1\<lparr>et := (et s1)\<lparr>status := st\<rparr>\<rparr>;
          b = extern_read_buffer s2;
          (off, count) = buffer_write_ptr b;
          msg = (if st = et_status_err then et_err_msg else et_ok_msg)
      in case strcpy_at off msg b of
           None \<Rightarrow> Inl Buffer_overrun
         | Some b1 \<Rightarrow>
             let s3 = s2\<lparr>extern_read_buffer := buffer_write_adv b1 (length msg)\<rparr>;
                 s4 = (if st = et_status_err
                       then s3\<lparr>sel := snd (selector_set_interest (sel s3) (client_fd s3) OP_WRITE)\<rparr>
                       else s3);
                 (fin, n) = parse_mail mail_end
             in Inr (if fin then s4\<lparr>et := (et s4)\<lparr>send_bytes_read := n, finish_rd := True\<rparr>\<rparr>
                     else s4\<lparr>et := (et s4)\<lparr>send_bytes_read := n\<rparr>\<rparr>))"

text \<open>\<^verbatim>\<open>finished_et\<close>\<close>

definition finished_et :: "external_transformation \<Rightarrow> bool" where
  "finished_et e =
     (if finish_rd e \<and> finish_wr e then True
      else if finish_rd e \<and> error_wr e then True
      else False)"

text \<open>
  \<^verbatim>\<open>external_transformation_write\<close>, on the client descriptor. \<open>m\<close> is the metrics
  record. The two error messages are written with \<^verbatim>\<open>sprintf\<close> at the write cursor.
\<close>

definition external_transformation_write ::
  "send_in \<Rightarrow> pop3 \<times> metrics \<Rightarrow> fault + (pop3_state \<times> pop3 \<times> metrics)" where
  "external_transformation_write snd_in sm =
     (let (s, m) = sm;
          r1 = (if error_wr (et s) \<and> \<not> did_write (et s) then
                  (let b = buffer_reset (extern_read_buffer s)
                   in map_option
                        (\<lambda>b1. s\<lparr>et := (et s)\<lparr>write_error := True\<rparr>,
                                 extern_read_buffer := buffer_write_adv b1 (length et_err_msg)\<rparr>)
                        (strcpy_at (fst (buffer_write_ptr b)) et_err_msg b))
                else Some s)
      in case r1 of
           None \<Rightarrow> Inl Buffer_overrun
         | Some s1 \<Rightarrow>
            (case (if error_wr (et s1) \<and> did_write (et s1) \<and> \<not> write_error (et s1) then
                     (let b = extern_read_buffer s1
                      in map_option
                           (\<lambda>b1. s1\<lparr>et := (et s1)\<lparr>write_error := True\<rparr>,
                                     extern_read_buffer := buffer_write_adv b1 (length eom)\<rparr>)
                           (strcpy_at (fst (buffer_write_ptr b)) eom b))
                   else Some s1) of
               None \<Rightarrow> Inl Buffer_overrun
             | Some s2 \<Rightarrow>
                 let b = extern_read_buffer s2;
                     (off, count) = buffer_read_ptr b;
                     bytes_sent = (if send_bytes_write (et s2) \<noteq> 0 then send_bytes_write (et s2)
                                   else count)
                 in case send bytes_sent snd_in of
                      None \<Rightarrow> Inr (ERROR, s2, m)
                    | Some n \<Rightarrow>
                        if 0 < n then
                          let e3 = (if send_bytes_write (et s2) \<noteq> 0
                                    then (et s2)\<lparr>send_bytes_write := send_bytes_write (et s2) - n,
                                                finish_wr := True\<rparr>
                                    else et s2);
                              e4 = e3\<lparr>did_write := True\<rparr>;
                              s3 = s2\<lparr>et := e4,
                                      extern_read_buffer := buffer_read_adv b n,
                                      sent := (sent s2)(client_fd s2 :=
                                                sent s2 (client_fd s2) @ take n (drop off (data b)))\<rparr>;
                              m1 = (if finish_wr e4
                                    then m\<lparr>retrieved_messages := retrieved_messages m + 1\<rparr>
                                    else m);
                              m2 = m1\<lparr>transferred_bytes := transferred_bytes m1 + of_nat n\<rparr>
                          in if (error_wr e4 \<or> finish_wr e4) \<and> send_bytes_write e4 = 0 then
                               (if finished_et e4 then
                                  (if request_queue (session s3) \<noteq> [] then
                                     Inr (RESPONSE,
                                          set_interest_unchecked (origin_fd s3) OP_READ
                                            (set_interest_unchecked (client_fd s3) OP_NOOP s3), m2)
                                   else
                                     Inr (REQUEST,
                                          set_interest_unchecked (client_fd s3) OP_READ
                                            (set_interest_unchecked (origin_fd s3) OP_NOOP s3), m2))
                                else
                                  Inr (EXTERNAL_TRANSFORMATION,
                                       set_interest_unchecked (client_fd s3) OP_NOOP
                                         (set_interest_unchecked (extern_read_fd s3) OP_READ s3), m2))
                             else
                               (if \<not> error_wr e4 then
                                  Inr (EXTERNAL_TRANSFORMATION,
                                       set_interest_unchecked (client_fd s3) OP_NOOP
                                         (set_interest_unchecked (extern_read_fd s3) OP_READ s3), m2)
                                else Inr (EXTERNAL_TRANSFORMATION, s3, m2))
                        else Inr (EXTERNAL_TRANSFORMATION, s2, m)))"

text \<open>
  The descriptors of the session on which the selector still waits for an event: those
  registered with an interest other than \<open>OP_NOOP\<close>. A handler of the session runs only
  on an event of one of them.
\<close>

definition armed :: "pop3 \<Rightarrow> int list" where
  "armed s =
     filter (\<lambda>fd. case sel s fd of None \<Rightarrow> False | Some i \<Rightarrow> i \<noteq> OP_NOOP)
       [client_fd s, origin_fd s, extern_read_fd s, extern_write_fd s]"

text \<open>
  Entering EXTERNAL_TRANSFORMATION and the first write event on the client descriptor
  after it.
\<close>

definition et_arrival_and_write ::
  "spawn_env \<Rightarrow> nat option \<Rightarrow> send_in \<Rightarrow> pop3 \<times> metrics \<Rightarrow>
     fault + (pop3_state \<times> pop3 \<times> metrics)" where
  "et_arrival_and_write env mail_end snd_in sm =
     (case external_transformation_init env mail_end (fst sm) of
        Inl f \<Rightarrow> Inl f
      | Inr s1 \<Rightarrow> external_transformation_write snd_in (s1, snd sm))"

section \<open>The management channel\<close>

subsection \<open>Heap strings\<close>

text \<open>
  The management code allocates, copies and frees strings, and two of the claims are
  about which block a pointer of the configuration ends up naming. A \<^verbatim>\<open>char *\<close> is an
  address, \<open>None\<close> for NULL. A block records the size it was allocated with and the C
  string copied to its start. \<^verbatim>\<open>strcpy\<close> does not check the size: a string as long as
  its block or longer has its end, at least its NUL, outside the block, and the block is
  not \<open>terminated\<close>. The model records that and goes on, as the allocator's padding lets
  the program.
\<close>

type_synonym addr = nat

record block =
  allocated :: nat
  content :: string

record heap =
  cells :: "addr \<rightharpoonup> block"
  next_free :: addr

definition terminated :: "block \<Rightarrow> bool" where
  "terminated b = (length (content b) < allocated b)"

text \<open>\<^verbatim>\<open>malloc(n)\<close>: \<open>ok\<close> is whether memory is left; a new block is at a fresh address.\<close>

definition malloc :: "bool \<Rightarrow> nat \<Rightarrow> heap \<Rightarrow> addr option \<times> heap" where
  "malloc ok n h =
     (if ok then (Some (next_free h),
                  h\<lparr>cells := (cells h)(next_free h \<mapsto> \<lparr>allocated = n, content = []\<rparr>),
                    next_free := Suc (next_free h)\<rparr>)
      else (None, h))"

definition free :: "addr \<Rightarrow> heap \<Rightarrow> heap" where
  "free a h = h\<lparr>cells := (cells h)(a := None)\<rparr>"

text \<open>The string a pointer names; \<open>None\<close> for NULL and for a pointer to no live block.\<close>

definition deref :: "heap \<Rightarrow> addr option \<Rightarrow> string option" where
  "deref h p = (case p of None \<Rightarrow> None | Some a \<Rightarrow> map_option content (cells h a))"

text \<open>\<^verbatim>\<open>strcpy(dst, src)\<close> for a live block \<open>dst\<close>.\<close>

definition strcpy :: "addr \<Rightarrow> string \<Rightarrow> heap \<Rightarrow> heap" where
  "strcpy dst src h =
     (case cells h dst of
        None \<Rightarrow> h
      | Some b \<Rightarrow> h\<lparr>cells := (cells h)(dst \<mapsto> b\<lparr>content := src\<rparr>)\<rparr>)"

subsection \<open>Configuration, connection state and replies\<close>

text \<open>
  \<^verbatim>\<open>struct options\<close> (parameters.h): the fields the management channel reads or
  writes. The type of the media-type set is a parameter (media_types.h is not among the
  sources), and so are the four functions on it that \<^verbatim>\<open>parse_config\<close> calls; a negative
  result of theirs is \<open>None\<close>.
\<close>

record 'mt options =
  replacement_msg :: "addr option"
  filtered_media_types :: 'mt
  et_activated :: bool
  filter_command :: "addr option"
  user_o :: "addr option"
  pass_o :: "addr option"

record 'mt media_ops =
  get_types_list :: "'mt \<Rightarrow> char \<Rightarrow> string"
  is_mime :: "string \<Rightarrow> (string \<times> string) option"
  add_media_type :: "'mt \<Rightarrow> string \<Rightarrow> string \<Rightarrow> 'mt option"
  delete_media_type :: "'mt \<Rightarrow> string \<Rightarrow> string \<Rightarrow> 'mt option"

datatype parse_status = ST_HELO | ST_USER | ST_PASS | ST_CONFIG

text \<open>The error codes the source names; any other value is \<open>ERROR_OTHER\<close>.\<close>

datatype parse_error = PARSE_OK | ERROR_WRONGARGS | ERROR_MALLOC | ERROR_DISCONNECT | ERROR_OTHER

text \<open>
  What the connection is sent: \<^verbatim>\<open>send_ok(data, msg)\<close> and \<^verbatim>\<open>send_error(data, msg)\<close>
  (utils.c is not among the sources) are recorded as calls with their message, and the
  greeting of \<^verbatim>\<open>parse_hello\<close> as the bytes it hands to \<^verbatim>\<open>send\<close>.
\<close>

datatype reply = Send_ok string | Send_error string | Send_raw string

text \<open>
  \<^verbatim>\<open>struct management\<close> (management.h is not among the sources): the fields the parser
  functions use, with the replies sent so far and whether the descriptor has been closed.
\<close>

record management =
  client_fd_m :: int
  status_m :: parse_status
  error_m :: parse_error
  argc :: int
  cmd_m :: "addr list"
  user_m :: "addr option"
  replies :: "reply list"
  closed_m :: bool

record 'mt mgmt =
  mg :: management
  parameters :: "'mt options"
  hp :: heap

definition send_ok :: "string \<Rightarrow> 'mt mgmt \<Rightarrow> 'mt mgmt" where
  "send_ok msg w = w\<lparr>mg := (mg w)\<lparr>replies := replies (mg w) @ [Send_ok msg]\<rparr>\<rparr>"

definition send_error :: "string \<Rightarrow> 'mt mgmt \<Rightarrow> 'mt mgmt" where
  "send_error msg w = w\<lparr>mg := (mg w)\<lparr>replies := replies (mg w) @ [Send_error msg]\<rparr>\<rparr>"

text \<open>\<^verbatim>\<open>cmd[i]\<close> as a string: the \<open>i\<close>-th pointer of the argument vector, dereferenced.\<close>

definition arg :: "'mt mgmt \<Rightarrow> nat \<Rightarrow> string option" where
  "arg w i =
     (if i < length (cmd_m (mg w)) then deref (hp w) (Some (cmd_m (mg w) ! i)) else None)"

text \<open>Decimal output of \<^verbatim>\<open>sprintf\<close>: \<^verbatim>\<open>%u\<close> and \<^verbatim>\<open>%lld\<close>.\<close>

function show_nat :: "nat \<Rightarrow> string" where
  "show_nat n =
     (if n < 10 then [''0123456789'' ! n]
      else show_nat (n div 10) @ [''0123456789'' ! (n mod 10)])"
  by pat_completeness auto
termination
  by (relation "measure id") auto

definition show_int :: "int \<Rightarrow> string" where
  "show_int i = (if i < 0 then ''-'' @ show_nat (nat (- i)) else show_nat (nat i))"

definition stats_msg :: "metrics \<Rightarrow> string" where
  "stats_msg m =
     [LF] @ ''Metrics'' @ [LF]
     @ ''Concurrent connections: '' @ show_nat (unat (concurrent_connections m)) @ [LF]
     @ ''Historical Access: '' @ show_nat (unat (historical_access m)) @ [LF]
     @ ''Transfered Bytes: '' @ show_int (sint (transferred_bytes m)) @ [LF]
     @ ''Retrieved Messages: '' @ show_nat (unat (retrieved_messages m)) @ [LF]"

subsection \<open>The parser functions\<close>

text \<open>The four labels at the end of \<^verbatim>\<open>parse_config\<close>; each returns 0.\<close>

definition fail :: "'mt mgmt \<Rightarrow> fault + (int \<times> 'mt mgmt)" where
  "fail w = Inr (0, send_error ''command not recognized.'' w)"

definition fail_mem :: "'mt mgmt \<Rightarrow> fault + (int \<times> 'mt mgmt)" where
  "fail_mem w = Inr (0, send_error ''server error.'' w)"

definition fail_type :: "'mt mgmt \<Rightarrow> fault + (int \<times> 'mt mgmt)" where
  "fail_type w = Inr (0, send_error ''wrong media type.'' w)"

definition success :: "'mt mgmt \<Rightarrow> fault + (int \<times> 'mt mgmt)" where
  "success w = Inr (0, send_ok ''Done.'' w)"

text \<open>
  \<^verbatim>\<open>parse_config\<close>. \<open>m\<close> is the metrics record (\<^verbatim>\<open>metricas\<close>), \<open>ok1\<close> and \<open>ok2\<close> are
  whether the first and the second \<^verbatim>\<open>malloc\<close> of the call succeed. In the branch
  \<^verbatim>\<open>CMD <shell>\<close> the copy is made before the pointer is compared with NULL. In the branch
  \<^verbatim>\<open>MSG <text>\<close> the copy is made into \<^verbatim>\<open>str\<close> and \<^verbatim>\<open>parameters->replacement_msg\<close>
  is assigned \<^verbatim>\<open>cmd[1]\<close>.
\<close>

definition parse_config ::
  "'mt media_ops \<Rightarrow> metrics \<Rightarrow> bool \<Rightarrow> bool \<Rightarrow> 'mt mgmt \<Rightarrow> fault + (int \<times> 'mt mgmt)" where
  "parse_config ops m ok1 ok2 w =
     (case arg w 0 of
        None \<Rightarrow> Inl Bad_pointer
      | Some c0 \<Rightarrow>
          if strcasecmp_eq ''CMD'' c0 then
            (if argc (mg w) = 1 then
               let w1 = w\<lparr>parameters := (parameters w)
                           \<lparr>et_activated := \<not> et_activated (parameters w)\<rparr>\<rparr>
               in Inr (0, if et_activated (parameters w1)
                          then send_ok ''External transformations activated.'' w1
                          else send_ok ''External transformations deactivated.'' w1)
             else if argc (mg w) \<noteq> 2 then fail w
             else
               (case arg w 1 of
                  None \<Rightarrow> Inl Bad_pointer
                | Some c1 \<Rightarrow>
                    (case malloc ok1 (length c1) (hp w) of
                       (None, h1) \<Rightarrow> Inl Null_dereference
                     | (Some str, h1) \<Rightarrow>
                         let h2 = strcpy str c1 h1;
                             h3 = (case filter_command (parameters w) of
                                     None \<Rightarrow> h2
                                   | Some old \<Rightarrow> free old h2)
                         in success (w\<lparr>hp := h3,
                                       parameters := (parameters w)\<lparr>filter_command := Some str\<rparr>\<rparr>))))
          else if strcasecmp_eq ''MSG'' c0 then
            (if argc (mg w) \<noteq> 2 then fail w
             else
               (case arg w 1 of
                  None \<Rightarrow> Inl Bad_pointer
                | Some c1 \<Rightarrow>
                    (case malloc ok1 (length c1) (hp w) of
                       (None, h1) \<Rightarrow> fail_mem w
                     | (Some str, h1) \<Rightarrow>
                         success (w\<lparr>hp := strcpy str c1 h1,
                                    parameters := (parameters w)
                                      \<lparr>replacement_msg := Some (cmd_m (mg w) ! 1)\<rparr>\<rparr>))))
          else if strcasecmp_eq ''LIST'' c0 then
            (if argc (mg w) \<noteq> 1 then fail w
             else Inr (0, send_ok (get_types_list ops (filtered_media_types (parameters w)) LF) w))
          else if strcasecmp_eq ''BAN'' c0 then
            (if argc (mg w) \<noteq> 2 then fail w
             else
               (case arg w 1 of
                  None \<Rightarrow> Inl Bad_pointer
                | Some c1 \<Rightarrow>
                    (case malloc ok1 (length c1) (hp w) of
                       (None, h1) \<Rightarrow> fail_mem w
                     | (Some str, h1) \<Rightarrow>
                         let w1 = w\<lparr>hp := strcpy str c1 h1\<rparr>
                         in (case is_mime ops c1 of
                               None \<Rightarrow> fail_type w1
                             | Some (type, subtype) \<Rightarrow>
                                 (case malloc ok2 (length subtype) (hp w1) of
                                    (None, h2) \<Rightarrow> fail_mem w1
                                  | (Some s, h2) \<Rightarrow>
                                      let w2 = w1\<lparr>hp := strcpy s subtype h2\<rparr>
                                      in (case add_media_type ops
                                                 (filtered_media_types (parameters w2)) type subtype of
                                            None \<Rightarrow> Inr (0, send_error ''could not ban type'' w2)
                                          | Some types \<Rightarrow>
                                              Inr (0, send_ok ''type banned''
                                                        (w2\<lparr>parameters := (parameters w2)
                                                              \<lparr>filtered_media_types := types\<rparr>\<rparr>))))))))
          else if strcasecmp_eq ''UNBAN'' c0 then
            (if argc (mg w) \<noteq> 2 then fail w
             else
               (case arg w 1 of
                  None \<Rightarrow> Inl Bad_pointer
                | Some c1 \<Rightarrow>
                    (case is_mime ops c1 of
                       None \<Rightarrow> fail_type w
                     | Some (type, subtype) \<Rightarrow>
                         (case delete_media_type ops
                                 (filtered_media_types (parameters w)) type subtype of
                            None \<Rightarrow> Inr (0, send_error ''could not unban type'' w)
                          | Some types \<Rightarrow>
                              Inr (0, send_ok ''type unbanned''
                                        (w\<lparr>parameters := (parameters w)
                                             \<lparr>filtered_media_types := types\<rparr>\<rparr>))))))
          else if strcasecmp_eq ''STATS'' c0 then
            (if argc (mg w) \<noteq> 1 then fail w
             else Inr (0, send_ok (stats_msg m) w))
          else fail w)"

text \<open>\<^verbatim>\<open>parse_hello\<close>, \<^verbatim>\<open>parse_user\<close>, \<^verbatim>\<open>parse_pass\<close> and \<^verbatim>\<open>goodbye\<close>.\<close>

definition parse_hello :: "'mt mgmt \<Rightarrow> fault + (int \<times> 'mt mgmt)" where
  "parse_hello w =
     Inr (0, w\<lparr>mg := (mg w)\<lparr>replies := replies (mg w)
                                  @ [Send_raw (''POP3 Proxy Management Server.'' @ [LF])],
                            status_m := ST_USER\<rparr>\<rparr>)"

definition parse_user :: "bool \<Rightarrow> 'mt mgmt \<Rightarrow> fault + (int \<times> 'mt mgmt)" where
  "parse_user ok1 w =
     (case arg w 0 of
        None \<Rightarrow> Inl Bad_pointer
      | Some c0 \<Rightarrow>
          if strcasecmp_eq ''USER'' c0 then
            (case arg w 1 of
               None \<Rightarrow> Inl Bad_pointer
             | Some c1 \<Rightarrow>
                 (case malloc ok1 (length c1) (hp w) of
                    (None, h1) \<Rightarrow> Inr (- 1, w)
                  | (Some u, h1) \<Rightarrow>
                      Inr (0, send_ok ''Welcome''
                                (w\<lparr>hp := strcpy u c1 h1,
                                   mg := (mg w)\<lparr>user_m := Some u, status_m := ST_PASS\<rparr>\<rparr>))))
          else Inr (0, send_error ''command not recognized.'' w))"

definition parse_pass :: "'mt mgmt \<Rightarrow> fault + (int \<times> 'mt mgmt)" where
  "parse_pass w =
     (case arg w 0 of
        None \<Rightarrow> Inl Bad_pointer
      | Some c0 \<Rightarrow>
          if strcasecmp_eq ''PASS'' c0 then
            (case (deref (hp w) (pass_o (parameters w)), arg w 1) of
               (Some p, Some c1) \<Rightarrow>
                 if p = c1 then
                   (case (deref (hp w) (user_o (parameters w)), deref (hp w) (user_m (mg w))) of
                      (Some pu, Some du) \<Rightarrow>
                        if pu = du then
                          let w1 = send_ok ''Logged in.''
                                     (w\<lparr>hp := (case user_m (mg w) of
                                                  None \<Rightarrow> hp w
                                                | Some u \<Rightarrow> free u (hp w))\<rparr>)
                          in Inr (0, w1\<lparr>mg := (mg w1)\<lparr>status_m := ST_CONFIG\<rparr>\<rparr>)
                        else
                          let w1 = send_error ''Authentication failed. Try again.'' w
                          in Inr (0, w1\<lparr>mg := (mg w1)\<lparr>status_m := ST_USER\<rparr>\<rparr>)
                    | _ \<Rightarrow> Inl Bad_pointer)
                 else
                   let w1 = send_error ''Authentication failed. Try again.'' w
                   in Inr (0, w1\<lparr>mg := (mg w1)\<lparr>status_m := ST_USER\<rparr>\<rparr>)
             | _ \<Rightarrow> Inl Bad_pointer)
          else Inr (0, send_error ''command not recognized.'' w))"

definition goodbye :: "'mt mgmt \<Rightarrow> fault + (int \<times> 'mt mgmt)" where
  "goodbye w =
     (let w1 = send_ok ''Goodbye.'' w
      in Inr (- 1, w1\<lparr>mg := (mg w1)\<lparr>closed_m := True\<rparr>\<rparr>))"

text \<open>The field \<^verbatim>\<open>args\<close> of the entry of \<^verbatim>\<open>action_list\<close> for a state.\<close>

fun action_args :: "parse_status \<Rightarrow> int" where
  "action_args ST_HELO = 0"
| "action_args ST_USER = 2"
| "action_args ST_PASS = 2"
| "action_args ST_CONFIG = 0"

text \<open>
  \<^verbatim>\<open>parse_commands\<close>. \<^verbatim>\<open>free_cmd\<close> (utils.c is not among the sources) is a parameter:
  what it does to the heap, given the argument vector and the count it is passed. The
  test for QUIT comes before the switch on the error and the dispatch on the state.
\<close>

definition parse_commands ::
  "'mt media_ops \<Rightarrow> metrics \<Rightarrow> bool \<Rightarrow> bool \<Rightarrow> (addr list \<Rightarrow> int \<Rightarrow> heap \<Rightarrow> heap) \<Rightarrow>
     'mt mgmt \<Rightarrow> fault + (int \<times> 'mt mgmt)" where
  "parse_commands ops m ok1 ok2 free_cmd w =
     (let act_args = action_args (status_m (mg w));
          st_err = (if act_args \<noteq> 0 \<and> act_args \<noteq> argc (mg w) then ERROR_WRONGARGS
                    else error_m (mg w))
      in if argc (mg w) = 1 \<and> arg w 0 = None then Inl Bad_pointer
         else if argc (mg w) = 1 \<and> strcasecmp_eq ''QUIT'' (the (arg w 0)) then goodbye w
         else
           (case st_err of
              PARSE_OK \<Rightarrow>
                (case (case status_m (mg w) of
                         ST_HELO \<Rightarrow> parse_hello w
                       | ST_USER \<Rightarrow> parse_user ok1 w
                       | ST_PASS \<Rightarrow> parse_pass w
                       | ST_CONFIG \<Rightarrow> parse_config ops m ok1 ok2 w) of
                   Inl f \<Rightarrow> Inl f
                 | Inr (r, w1) \<Rightarrow>
                     Inr (r, w1\<lparr>hp := free_cmd (cmd_m (mg w1)) act_args (hp w1)\<rparr>))
            | ERROR_WRONGARGS \<Rightarrow>
                Inr (0, send_error ''wrong command or wrong number of arguments.'' w)
            | ERROR_MALLOC \<Rightarrow> Inr (0, send_error ''server error. Try again later.'' w)
            | _ \<Rightarrow> Inr (0, w)))"

text \<open>
  \<^verbatim>\<open>management_write\<close>: the connection is unregistered, and with that closed and
  destroyed, when \<^verbatim>\<open>parse_commands\<close> returns a negative value or the selector refuses the
  new interest. The boolean of the result is whether it is.
\<close>

definition management_write ::
  "'mt media_ops \<Rightarrow> metrics \<Rightarrow> bool \<Rightarrow> bool \<Rightarrow> (addr list \<Rightarrow> int \<Rightarrow> heap \<Rightarrow> heap) \<Rightarrow> bool \<Rightarrow>
     'mt mgmt \<Rightarrow> fault + (bool \<times> 'mt mgmt)" where
  "management_write ops m ok1 ok2 free_cmd set_interest_ok w =
     (case parse_commands ops m ok1 ok2 free_cmd w of
        Inl f \<Rightarrow> Inl f
      | Inr (r, w1) \<Rightarrow> Inr (r < 0 \<or> \<not> set_interest_ok, w1))"

section \<open>Example inputs\<close>

text \<open>
  A parser stub that reports a finished response whose capability list names the
  capability in mixed case, and a session that has connected to its origin (client on
  descriptor 5, origin on descriptor 6).
\<close>

definition example_parser :: parser_ops where
  "example_parser =
     \<lparr>response_consume =
        (\<lambda>rb wb p. (response_done, rb, wb,
                     p\<lparr>capa_response := ''Top'' @ crlf @ ''Pipelining'' @ crlf @ ''.'' @ crlf\<rparr>,
                     False)),
      response_is_done = (\<lambda>st. st = response_done)\<rparr>"

definition example_session :: pop3 where
  "example_session =
     snd (connecting 6 True ((pop3_accepted 5)\<lparr>sel := [5 \<mapsto> OP_NOOP, 6 \<mapsto> OP_WRITE]\<rparr>))"

definition example_invalid_request :: "request_state \<times> pop3_request \<times> bool" where
  "example_invalid_request = (request_error, \<lparr>cmd = unknown_cmd, args = None\<rparr>, True)"

text \<open>
  A capability list of 340 lines \<^verbatim>\<open>USER\<close> and its terminator, 2043 bytes, without
  PIPELINING; and the session whose response parser has accumulated it.
\<close>

definition long_capa_list :: string where
  "long_capa_list = concat (replicate 340 (''USER'' @ crlf)) @ ''.'' @ crlf"

definition long_capa_session :: pop3 where
  "long_capa_session =
     example_session\<lparr>response_parser :=
       \<lparr>rp_state = response_done, first_line_done = False, capa_response = long_capa_list\<rparr>\<rparr>"

text \<open>
  A session that has diverted a RETR response to the external transformation: client and
  origin are registered and neither is armed (\<^verbatim>\<open>request_process\<close> disarmed the client
  when it queued the request, \<^verbatim>\<open>response_read\<close> the origin when it diverted). The
  \<^verbatim>\<open>pipe\<close> call then fails.
\<close>

definition diverted_session :: pop3 where
  "diverted_session = example_session\<lparr>sel := [5 \<mapsto> OP_NOOP, 6 \<mapsto> OP_NOOP]\<rparr>"

definition no_pipe :: spawn_env where
  "no_pipe = \<lparr>pipe_fd_read = None, pipe_fd_write = None, fork_ok = True,
              register_read_ok = True, nio_read_ok = True,
              register_write_ok = True, nio_write_ok = True\<rparr>"

text \<open>
  A management connection in the CONFIG state that has received \<^verbatim>\<open>MSG hello\<close>: the
  argument vector names the blocks 1 and 2, the configured replacement message is the
  block 0. The media-type functions are stubs over the unit type.
\<close>

definition example_media_ops :: "unit media_ops" where
  "example_media_ops =
     \<lparr>get_types_list = (\<lambda>_ _. []), is_mime = (\<lambda>_. None),
      add_media_type = (\<lambda>_ _ _. None), delete_media_type = (\<lambda>_ _ _. None)\<rparr>"

definition example_heap :: heap where
  "example_heap =
     \<lparr>cells = [0 \<mapsto> \<lparr>allocated = 13, content = ''Part removed''\<rparr>,
               1 \<mapsto> \<lparr>allocated = 4, content = ''MSG''\<rparr>,
               2 \<mapsto> \<lparr>allocated = 6, content = ''hello''\<rparr>],
      next_free = 3\<rparr>"

definition example_mgmt :: "unit mgmt" where
  "example_mgmt =
     \<lparr>mg = \<lparr>client_fd_m = 7, status_m = ST_CONFIG, error_m = PARSE_OK, argc = 2,
             cmd_m = [1, 2], user_m = None, replies = [], closed_m = False\<rparr>,
      parameters = \<lparr>replacement_msg = Some 0, filtered_media_types = (), et_activated = False,
                     filter_command = None, user_o = None, pass_o = None\<rparr>,
      hp = example_heap\<rparr>"

text \<open>The same connection having received \<^verbatim>\<open>cmd\<close> or \<^verbatim>\<open>quit\<close> alone, in any state.\<close>

definition example_mgmt_word :: "string \<Rightarrow> parse_status \<Rightarrow> unit mgmt" where
  "example_mgmt_word word st =
     example_mgmt\<lparr>mg := (mg example_mgmt)\<lparr>argc := 1, cmd_m := [1], status_m := st\<rparr>,
                  hp := example_heap\<lparr>cells := (cells example_heap)
                                       (1 \<mapsto> \<lparr>allocated = 5, content = word\<rparr>)\<rparr>\<rparr>"

text \<open>
  Three clients are accepted: the first has connected to the origin and ended, the second
  has connected and is in the HELLO state, the third is still resolving.
\<close>

definition example_events :: "event list" where
  "example_events =
     [Accept 5 True True True, Accept 7 True True True,
      Handler 0 CONNECTING None, Handler 0 HELLO (Some 6), Handler 0 ERROR None,
      Handler 1 CONNECTING None, Handler 1 HELLO (Some 8),
      Accept 9 True True True]"

section \<open>Properties of the session pool\<close>

lemma pool_step_bound:
  assumes "length (pool st) \<le> unat (pool_size st)" and "pool_size st \<le> max_pool"
  shows "length (pool (pool_step x st)) \<le> unat (pool_size (pool_step x st))
         \<and> pool_size (pool_step x st) \<le> max_pool"
proof (cases x)
  case (New m)
  then show ?thesis
    using assms by (auto simp: pop3_new_def split: list.splits option.splits)
next
  case (Destroy s)
  show ?thesis
  proof (cases "\<exists>p. s = Some p \<and> references st p = 1 \<and> pool_size st < max_pool")
    case True
    then obtain p where p: "s = Some p" "references st p = 1" "pool_size st < max_pool"
      by blast
    from p(3) have lt: "unat (pool_size st) < 50"
      by (simp add: max_pool_def word_less_nat_alt)
    then have un: "unat (pool_size st + 1) = unat (pool_size st) + 1"
      by (simp add: unat_word_ariths)
    have le: "pool_size st + 1 \<le> max_pool"
      using lt un by (simp add: max_pool_def word_le_nat_alt)
    show ?thesis
      using Destroy p assms(1) un le by (simp add: pop3_destroy_def)
  next
    case False
    then show ?thesis
      using Destroy assms by (auto simp: pop3_destroy_def split: option.splits)
  qed
next
  case (Add_reference p)
  then show ?thesis using assms by simp
qed

lemma run_pool_bound:
  "length (pool st) \<le> unat (pool_size st) \<Longrightarrow> pool_size st \<le> max_pool \<Longrightarrow>
   length (pool (run_pool ops st)) \<le> unat (pool_size (run_pool ops st))
   \<and> pool_size (run_pool ops st) \<le> max_pool"
  unfolding run_pool_def
proof (induction ops arbitrary: st)
  case Nil
  then show ?case by simp
next
  case (Cons x xs)
  from pool_step_bound [OF Cons.prems, of x] show ?case
    by (simp add: Cons.IH)
qed

lemma pool_step_size_mono:
  "pool_size st \<le> max_pool \<Longrightarrow> pool_size st \<le> pool_size (pool_step x st)"
proof (cases x)
  case (New m)
  then show ?thesis
    by (auto simp: pop3_new_def split: list.splits option.splits)
next
  case (Destroy s)
  assume "pool_size st \<le> max_pool"
  show ?thesis
  proof (cases "\<exists>p. s = Some p \<and> references st p = 1 \<and> pool_size st < max_pool")
    case True
    then obtain p where p: "s = Some p" "references st p = 1" "pool_size st < max_pool"
      by blast
    from p(3) have lt: "unat (pool_size st) < 50"
      by (simp add: max_pool_def word_less_nat_alt)
    then have "unat (pool_size st + 1) = unat (pool_size st) + 1"
      by (simp add: unat_word_ariths)
    then have "pool_size st \<le> pool_size st + 1"
      by (simp add: word_le_nat_alt)
    then show ?thesis using Destroy p by (simp add: pop3_destroy_def)
  next
    case False
    then show ?thesis
      using Destroy by (auto simp: pop3_destroy_def split: option.splits)
  qed
next
  case (Add_reference p)
  then show ?thesis by simp
qed

text \<open>
  C10. Across any sequence of \<^verbatim>\<open>pop3_new\<close> and \<^verbatim>\<open>pop3_destroy\<close> calls, starting from
  the empty pool, the free list never holds more than 50 sessions: its length is bounded
  by \<open>pool_size\<close>, which is bounded by \<open>max_pool = 50\<close>. Reuse (\<^verbatim>\<open>pop3_new\<close>) leaves
  \<open>pool_size\<close> as it is, and no operation lowers it.
\<close>

theorem pool_never_exceeds_max_pool:
  "length (pool (run_pool ops pool_init)) \<le> unat (pool_size (run_pool ops pool_init))
   \<and> unat (pool_size (run_pool ops pool_init)) \<le> 50
   \<and> pool_size (snd (pop3_new m (run_pool ops pool_init))) = pool_size (run_pool ops pool_init)
   \<and> pool_size (run_pool ops pool_init) \<le> pool_size (pool_step x (run_pool ops pool_init))"
proof -
  let ?st = "run_pool ops pool_init"
  have b: "length (pool ?st) \<le> unat (pool_size ?st) \<and> pool_size ?st \<le> max_pool"
    by (rule run_pool_bound) (simp_all add: pool_init_def)
  then have "unat (pool_size ?st) \<le> 50"
    by (simp add: max_pool_def word_le_nat_alt)
  moreover have "pool_size (snd (pop3_new m ?st)) = pool_size ?st"
    by (auto simp: pop3_new_def split: list.splits option.splits)
  moreover have "pool_size ?st \<le> pool_size (pool_step x ?st)"
    using b by (simp add: pool_step_size_mono)
  ultimately show ?thesis using b by simp
qed

section \<open>Properties of the buffers and of the string functions\<close>

declare buffer_drain.simps [simp del]

lemma buffer_drain_eq:
  "buffer_drain b = (if buffer_can_read b then b\<lparr>rd := 0, wr := 0\<rparr> else b)"
proof (induction b rule: buffer_drain.induct)
  case (1 b)
  show ?case
  proof (cases "buffer_can_read b")
    case True
    then have "buffer_drain b = buffer_drain (snd (buffer_read b))"
      by (subst buffer_drain.simps) simp
    also have "\<dots> = b\<lparr>rd := 0, wr := 0\<rparr>"
      using 1 [OF True] True
      by (auto simp: buffer_read_def buffer_read_adv_def buffer_can_read_def)
    finally show ?thesis using True by simp
  next
    case False
    then show ?thesis by (subst buffer_drain.simps) simp
  qed
qed

lemma strstr_sublist: "strstr h n \<noteq> None \<longleftrightarrow> sublist n h"
  by (induction h) (auto simp: sublist_Cons_right)

lemma sublist_iff_take_drop:
  "sublist n h \<longleftrightarrow> (\<exists>i \<le> length h. take (length n) (drop i h) = n)"
proof
  assume "sublist n h"
  then obtain ps ss where h: "h = ps @ n @ ss" by (auto simp: sublist_def)
  then have "take (length n) (drop (length ps) h) = n" by simp
  moreover have "length ps \<le> length h" using h by simp
  ultimately show "\<exists>i \<le> length h. take (length n) (drop i h) = n" by blast
next
  assume "\<exists>i \<le> length h. take (length n) (drop i h) = n"
  then obtain i where i: "take (length n) (drop i h) = n" by blast
  have "h = take i h @ take (length n) (drop i h) @ drop (length n) (drop i h)"
    by (simp only: append_take_drop_id)
  then show "sublist n h" unfolding sublist_def using i by metis
qed

lemma needle_upper: "map toupper_c needle = needle"
  by (simp add: needle_def toupper_c_def)

lemma contains_ci_strstr:
  "contains_ci text needle \<longleftrightarrow> strstr (to_upper text) needle \<noteq> None"
proof -
  have "strstr (to_upper text) needle \<noteq> None \<longleftrightarrow>
        (\<exists>i \<le> length text. take (length needle) (drop i (map toupper_c text)) = needle)"
    unfolding strstr_sublist to_upper_def
    by (subst sublist_iff_take_drop) simp
  also have "\<dots> \<longleftrightarrow> contains_ci text needle"
    by (simp add: contains_ci_def list_ex_iff needle_upper take_map drop_map less_Suc_eq_le
          Bex_def del: upt_Suc)
  finally show ?thesis by simp
qed

lemma set_two_interests_eq:
  "set_two_interests a i b j s = (ok, s') \<Longrightarrow> s' = s\<lparr>sel := sel s'\<rparr>"
  by (auto simp: set_two_interests_def selector_set_interest_def Let_def
           split: option.splits prod.splits)

lemma set_two_interestsD:
  "set_two_interests a i b j s = (ok, s') \<Longrightarrow> \<exists>sl. s' = s\<lparr>sel := sl\<rparr>"
  by (drule set_two_interests_eq) blast

section \<open>Pipelining is what the capability list says\<close>

lemma set_pipelining_iff:
  "pipelining (session (set_pipelining s)) = contains_ci (capa_response (response_parser s)) needle"
  by (simp add: set_pipelining_def contains_ci_strstr Let_def)

lemma capa_read_request:
  "fst (capa_read P fd rcv s) = REQUEST \<Longrightarrow>
   pipelining (session (snd (capa_read P fd rcv s))) = contains_ci (capa_text P rcv s) needle"
  unfolding capa_read_def capa_text_def Let_def
  by (auto split: option.splits prod.splits if_splits
           simp: contains_ci_strstr set_pipelining_def set_two_interests_def
                 selector_set_interest_def Let_def)

lemma capa_read_pending:
  "fst (capa_read P fd rcv s) = CAPA \<Longrightarrow> session (snd (capa_read P fd rcv s)) = session s"
  unfolding capa_read_def Let_def
  by (auto split: option.splits prod.splits if_splits
           simp: set_pipelining_def set_two_interests_def selector_set_interest_def Let_def)

lemma connecting_session:
  "session (snd (connecting ofd True s)) = pop3_session_init False"
  by (simp add: connecting_def set_two_interests_def selector_set_interest_def Let_def
           split: option.splits prod.splits)

text \<open>
  C4. When \<^verbatim>\<open>capa_read\<close> has consumed the whole CAPA response (it leaves for REQUEST),
  \<open>session.pipelining\<close> is true exactly when the accumulated capability text contains
  PIPELINING, compared without regard to letter case; \<^verbatim>\<open>set_pipelining\<close> decides it.
  Before that the flag is false: \<^verbatim>\<open>pop3_new\<close> and \<^verbatim>\<open>connecting\<close> initialise the session
  without pipelining, and \<^verbatim>\<open>capa_read\<close> leaves the session alone while the response is
  incomplete.
\<close>

theorem capa_pipelining_iff:
  "pipelining (session (set_pipelining s))
     = contains_ci (capa_response (response_parser s)) needle
   \<and> (fst (capa_read P fd rcv s) = REQUEST \<longrightarrow>
        pipelining (session (snd (capa_read P fd rcv s))) = contains_ci (capa_text P rcv s) needle)
   \<and> (fst (capa_read P fd rcv s) = CAPA \<longrightarrow>
        session (snd (capa_read P fd rcv s)) = session s)
   \<and> \<not> pipelining (session (pop3_accepted cfd))
   \<and> \<not> pipelining (session (snd (connecting ofd True s)))"
  using set_pipelining_iff [of s] capa_read_request [of P fd rcv s] capa_read_pending [of P fd rcv s]
  by (simp add: pop3_accepted_def pop3_session_init_def connecting_session)

theorem capa_pipelining_iff_witness:
  "fst (capa_read example_parser 6 (Recv ''x'') example_session) = REQUEST
   \<and> pipelining (session (snd (capa_read example_parser 6 (Recv ''x'') example_session)))"
proof -
  have h: "fst (capa_read example_parser 6 (Recv ''x'') example_session) = REQUEST"
    by code_simp
  have c: "contains_ci (capa_text example_parser (Recv ''x'') example_session) needle"
    by code_simp
  from capa_pipelining_iff [of example_session example_parser 6 "Recv ''x''"] h c
  show ?thesis by simp
qed

section \<open>Invalid commands in the REQUEST state\<close>

lemma request_process_invalid:
  assumes "request_state_rank request_error \<le> request_state_rank (request_parser_state s)"
  shows "\<exists>line s'.
           line \<in> {''-ERR Unknown command. (POPG)'' @ crlf, ''-ERR Command too long.'' @ crlf,
                    ''-ERR Parameter too long.'' @ crlf}
         \<and> request_process fd a s =
             Inr (if 3 \<le> concurrent_invalid_commands (session s) + 1 then DONE else REQUEST, s')
         \<and> concurrent_invalid_commands (session s') = concurrent_invalid_commands (session s) + 1
         \<and> sent s' fd = sent s fd @ line @
             (if 3 \<le> concurrent_invalid_commands (session s) + 1
              then ''-ERR Too many invalid commands. (POPG)'' @ [LF] else [])
         \<and> client_fd s' = client_fd s"
  using assms
  by (cases "request_parser_state s")
     (auto simp: request_process_def send_all_def Let_def MAX_CONCURRENT_INVALID_COMMANDS_def)

lemma request_process_valid:
  assumes "\<not> request_state_rank request_error \<le> request_state_rank (request_parser_state s)"
  shows "\<exists>nxt s'. request_process fd a s = Inr (nxt, s') \<and> nxt \<noteq> DONE
         \<and> concurrent_invalid_commands (session s') = 0 \<and> sent s' = sent s
         \<and> client_fd s' = client_fd s"
  using assms
  by (auto simp: request_process_def Let_def split: prod.splits dest!: set_two_interestsD)

lemma request_run_done:
  "request_run xs s = Inr (DONE, s') \<Longrightarrow> concurrent_invalid_commands (session s) = k \<Longrightarrow>
   k < 3 \<Longrightarrow>
   \<exists>ys zs. xs = ys @ zs \<and>
     ((length ys = 3 - k \<and> list_all invalid_request ys)
      \<or> (\<exists>us a b c. ys = us @ [a, b, c] \<and> invalid_request a \<and> invalid_request b
                      \<and> invalid_request c))"
proof (induction xs arbitrary: s k)
  case Nil
  then show ?case by simp
next
  case (Cons x rest)
  obtain st r ok where x: "x = (st, r, ok)" by (cases x) auto
  let ?s = "s\<lparr>request_parser_state := st, request := r\<rparr>"
  show ?case
  proof (cases "invalid_request x")
    case True
    then have inv: "request_state_rank request_error \<le> request_state_rank (request_parser_state ?s)"
      by (simp add: invalid_request_def x)
    from request_process_invalid [OF inv, of "client_fd s" ok]
    obtain line s1 where
      p: "request_process (client_fd s) ok ?s =
            Inr (if 3 \<le> k + 1 then DONE else REQUEST, s1)"
      and c: "concurrent_invalid_commands (session s1) = k + 1"
      using Cons.prems(2) by auto
    show ?thesis
    proof (cases "3 \<le> k + 1")
      case True
      then have "k = 2" using Cons.prems(3) by simp
      then have "x # rest = [x] @ rest \<and> length [x] = 3 - k \<and> list_all invalid_request [x]"
        using \<open>invalid_request x\<close> by simp
      then show ?thesis by blast
    next
      case False
      then have run: "request_run rest s1 = Inr (DONE, s')"
        using Cons.prems(1) p by (simp add: x)
      have k1: "k + 1 < 3" using False by simp
      from Cons.IH [OF run c k1]
      obtain ys zs where yz: "rest = ys @ zs"
        and d: "(length ys = 3 - (k + 1) \<and> list_all invalid_request ys)
                \<or> (\<exists>us a b c. ys = us @ [a, b, c] \<and> invalid_request a \<and> invalid_request b
                      \<and> invalid_request c)"
        by blast
      from d show ?thesis
      proof
        assume "length ys = 3 - (k + 1) \<and> list_all invalid_request ys"
        then have "x # rest = (x # ys) @ zs \<and> length (x # ys) = 3 - k
                   \<and> list_all invalid_request (x # ys)"
          using yz False \<open>invalid_request x\<close> by simp
        then show ?thesis by blast
      next
        assume "\<exists>us a b c. ys = us @ [a, b, c] \<and> invalid_request a \<and> invalid_request b
                      \<and> invalid_request c"
        then obtain us a b c where "ys = us @ [a, b, c]" "invalid_request a" "invalid_request b"
          "invalid_request c" by blast
        then have "x # rest = (x # ys) @ zs \<and> x # ys = (x # us) @ [a, b, c]
            \<and> invalid_request a \<and> invalid_request b \<and> invalid_request c"
          using yz by simp
        then show ?thesis by blast
      qed
    qed
  next
    case False
    then have val: "\<not> request_state_rank request_error \<le> request_state_rank (request_parser_state ?s)"
      by (simp add: invalid_request_def x)
    from request_process_valid [OF val, of "client_fd s" ok]
    obtain nxt s1 where
      p: "request_process (client_fd s) ok ?s = Inr (nxt, s1)" and nd: "nxt \<noteq> DONE"
      and c: "concurrent_invalid_commands (session s1) = 0"
      by auto
    have run: "request_run rest s1 = Inr (DONE, s')"
      using Cons.prems(1) p nd by (cases nxt) (simp_all add: x)
    have "\<exists>ys zs. rest = ys @ zs \<and>
     ((length ys = 3 - 0 \<and> list_all invalid_request ys)
      \<or> (\<exists>us a b c. ys = us @ [a, b, c] \<and> invalid_request a \<and> invalid_request b
                      \<and> invalid_request c))"
      by (rule Cons.IH [OF run c]) simp
    then have "\<exists>ys zs. rest = ys @ zs \<and>
     ((length ys = 3 \<and> list_all invalid_request ys)
      \<or> (\<exists>us a b c. ys = us @ [a, b, c] \<and> invalid_request a \<and> invalid_request b
                      \<and> invalid_request c))"
      by (simp only: diff_zero)
    then obtain ys zs where yz: "rest = ys @ zs"
      and d: "(length ys = 3 \<and> list_all invalid_request ys)
              \<or> (\<exists>us a b c. ys = us @ [a, b, c] \<and> invalid_request a \<and> invalid_request b
                    \<and> invalid_request c)"
      by blast
    have "\<exists>us a b c. ys = us @ [a, b, c] \<and> invalid_request a \<and> invalid_request b
                    \<and> invalid_request c"
      using d
    proof
      assume l: "length ys = 3 \<and> list_all invalid_request ys"
      then obtain a b c where "ys = [a, b, c]"
        by (cases ys; cases "tl ys"; cases "tl (tl ys)") auto
      then have "ys = [] @ [a, b, c] \<and> invalid_request a \<and> invalid_request b \<and> invalid_request c"
        using l by simp
      then show ?thesis by blast
    qed
    then obtain us a b c where "ys = us @ [a, b, c]" "invalid_request a" "invalid_request b"
          "invalid_request c" by blast
    then have "x # rest = (x # ys) @ zs \<and> x # ys = (x # us) @ [a, b, c]
            \<and> invalid_request a \<and> invalid_request b \<and> invalid_request c"
      using yz by simp
    then show ?thesis by blast
  qed
qed


lemma request_run_three_invalid:
  assumes "concurrent_invalid_commands (session s) = 0"
  shows "\<exists>s'. request_run [(request_error, r1, a1), (request_error, r2, a2), (request_error, r3, a3)] s
               = Inr (DONE, s')
          \<and> sent s' (client_fd s) = sent s (client_fd s)
               @ ''-ERR Unknown command. (POPG)'' @ crlf
               @ ''-ERR Unknown command. (POPG)'' @ crlf
               @ ''-ERR Unknown command. (POPG)'' @ crlf
               @ ''-ERR Too many invalid commands. (POPG)'' @ [LF]"
  using assms
  by (simp add: request_process_def send_all_def Let_def MAX_CONCURRENT_INVALID_COMMANDS_def)

text \<open>
  C3. In the REQUEST state a malformed command (the parser ends in one of its error
  states) has \<^verbatim>\<open>request_process\<close> send the client one \<^verbatim>\<open>-ERR\<close> line and add one to
  \<open>concurrent_invalid_commands\<close>; when the counter reaches 3 the line
  \<^verbatim>\<open>-ERR Too many invalid commands. (POPG)\n\<close> follows and the state is DONE, else the
  state stays REQUEST. A valid command sets the counter to 0 and never leads to DONE. So
  three malformed commands in a row end the session, and a run that ends in DONE contains
  three malformed commands in a row.
\<close>

theorem request_process_invalid_commands:
  "(invalid_request (request_parser_state s, r, a) \<longrightarrow>
      (\<exists>line s'.
           line \<in> {''-ERR Unknown command. (POPG)'' @ crlf, ''-ERR Command too long.'' @ crlf,
                    ''-ERR Parameter too long.'' @ crlf}
         \<and> request_process fd a s =
             Inr (if 3 \<le> concurrent_invalid_commands (session s) + 1 then DONE else REQUEST, s')
         \<and> concurrent_invalid_commands (session s') = concurrent_invalid_commands (session s) + 1
         \<and> sent s' fd = sent s fd @ line @
             (if 3 \<le> concurrent_invalid_commands (session s) + 1
              then ''-ERR Too many invalid commands. (POPG)'' @ [LF] else [])))
   \<and> (\<not> invalid_request (request_parser_state s, r, a) \<longrightarrow>
      (\<exists>nxt s'. request_process fd a s = Inr (nxt, s') \<and> nxt \<noteq> DONE
         \<and> concurrent_invalid_commands (session s') = 0 \<and> sent s' = sent s))
   \<and> (concurrent_invalid_commands (session s) = 0 \<longrightarrow>
      (\<exists>s'. request_run [(request_error, r1, a1), (request_error, r2, a2), (request_error, r3, a3)] s
               = Inr (DONE, s')
          \<and> sent s' (client_fd s) = sent s (client_fd s)
               @ ''-ERR Unknown command. (POPG)'' @ crlf
               @ ''-ERR Unknown command. (POPG)'' @ crlf
               @ ''-ERR Unknown command. (POPG)'' @ crlf
               @ ''-ERR Too many invalid commands. (POPG)'' @ [LF]))
   \<and> (concurrent_invalid_commands (session s) = 0 \<and> request_run xs s = Inr (DONE, s2) \<longrightarrow>
      (\<exists>us x y z zs. xs = us @ [x, y, z] @ zs
          \<and> invalid_request x \<and> invalid_request y \<and> invalid_request z))"
proof (intro conjI impI)
  assume "invalid_request (request_parser_state s, r, a)"
  then have "request_state_rank request_error \<le> request_state_rank (request_parser_state s)"
    by (simp add: invalid_request_def)
  from request_process_invalid [OF this, of fd a]
  show "\<exists>line s'.
           line \<in> {''-ERR Unknown command. (POPG)'' @ crlf, ''-ERR Command too long.'' @ crlf,
                    ''-ERR Parameter too long.'' @ crlf}
         \<and> request_process fd a s =
             Inr (if 3 \<le> concurrent_invalid_commands (session s) + 1 then DONE else REQUEST, s')
         \<and> concurrent_invalid_commands (session s') = concurrent_invalid_commands (session s) + 1
         \<and> sent s' fd = sent s fd @ line @
             (if 3 \<le> concurrent_invalid_commands (session s) + 1
              then ''-ERR Too many invalid commands. (POPG)'' @ [LF] else [])"
    by blast
next
  assume "\<not> invalid_request (request_parser_state s, r, a)"
  then have "\<not> request_state_rank request_error \<le> request_state_rank (request_parser_state s)"
    by (simp add: invalid_request_def)
  from request_process_valid [OF this, of fd a]
  show "\<exists>nxt s'. request_process fd a s = Inr (nxt, s') \<and> nxt \<noteq> DONE
         \<and> concurrent_invalid_commands (session s') = 0 \<and> sent s' = sent s"
    by blast
next
  assume "concurrent_invalid_commands (session s) = 0"
  then show "\<exists>s'. request_run [(request_error, r1, a1), (request_error, r2, a2), (request_error, r3, a3)] s
               = Inr (DONE, s')
          \<and> sent s' (client_fd s) = sent s (client_fd s)
               @ ''-ERR Unknown command. (POPG)'' @ crlf
               @ ''-ERR Unknown command. (POPG)'' @ crlf
               @ ''-ERR Unknown command. (POPG)'' @ crlf
               @ ''-ERR Too many invalid commands. (POPG)'' @ [LF]"
    by (rule request_run_three_invalid)
next
  assume h: "concurrent_invalid_commands (session s) = 0 \<and> request_run xs s = Inr (DONE, s2)"
  then have "\<exists>ys zs. xs = ys @ zs \<and>
     ((length ys = 3 - 0 \<and> list_all invalid_request ys)
      \<or> (\<exists>us a b c. ys = us @ [a, b, c] \<and> invalid_request a \<and> invalid_request b
                      \<and> invalid_request c))"
    by (intro request_run_done [of xs s s2 0]) simp_all
  then obtain ys zs where yz: "xs = ys @ zs"
      and d: "(length ys = 3 \<and> list_all invalid_request ys)
              \<or> (\<exists>us a b c. ys = us @ [a, b, c] \<and> invalid_request a \<and> invalid_request b
                    \<and> invalid_request c)"
    by (simp only: diff_zero) blast
  have "\<exists>us a b c. ys = us @ [a, b, c] \<and> invalid_request a \<and> invalid_request b
                    \<and> invalid_request c"
    using d
  proof
    assume l: "length ys = 3 \<and> list_all invalid_request ys"
    then obtain a b c where "ys = [a, b, c]"
      by (cases ys; cases "tl ys"; cases "tl (tl ys)") auto
    then have "ys = [] @ [a, b, c] \<and> invalid_request a \<and> invalid_request b \<and> invalid_request c"
      using l by simp
    then show ?thesis by blast
  qed
  then obtain us a b c where "ys = us @ [a, b, c]" "invalid_request a" "invalid_request b"
          "invalid_request c" by blast
  then have "xs = us @ [a, b, c] @ zs \<and> invalid_request a \<and> invalid_request b \<and> invalid_request c"
    using yz by simp
  then show "\<exists>us x y z zs. xs = us @ [x, y, z] @ zs
          \<and> invalid_request x \<and> invalid_request y \<and> invalid_request z"
    by blast
qed

theorem request_process_invalid_commands_witness:
  "concurrent_invalid_commands (session example_session) = 0
   \<and> (\<exists>s'. request_run [example_invalid_request, example_invalid_request, example_invalid_request] example_session = Inr (DONE, s')
          \<and> sent s' 5 = ''-ERR Unknown command. (POPG)'' @ crlf
               @ ''-ERR Unknown command. (POPG)'' @ crlf
               @ ''-ERR Unknown command. (POPG)'' @ crlf
               @ ''-ERR Too many invalid commands. (POPG)'' @ [LF])"
proof -
  have c: "concurrent_invalid_commands (session example_session) = 0"
    by (simp add: example_session_def connecting_session pop3_session_init_def)
  have f: "client_fd example_session = 5" "sent example_session 5 = []"
    by (simp_all add: example_session_def connecting_def pop3_accepted_def Let_def
          set_two_interests_def selector_set_interest_def send_all_def)
  from request_process_invalid_commands
         [of example_session _ _ _ "\<lparr>cmd = unknown_cmd, args = None\<rparr>" True
             "\<lparr>cmd = unknown_cmd, args = None\<rparr>" True "\<lparr>cmd = unknown_cmd, args = None\<rparr>" True]
       c f
  show ?thesis by (simp add: example_invalid_request_def)
qed

section \<open>The HELLO state: what the client is sent first\<close>

lemma banner_length: "length proxy_banner = 30"
  by (simp add: proxy_banner_def crlf_def)

lemma hello_read_fresh:
  assumes "rd (write_buffer s) = 0" "wr (write_buffer s) = 0"
    "length (data (write_buffer s)) = BUFFER_SIZE" "g \<noteq> []"
    "sel s (origin_fd s) \<noteq> None" "sel s (client_fd s) \<noteq> None"
  shows "\<exists>s1. hello_read (origin_fd s) (Recv g) s = Inr (HELLO, s1)
          \<and> readable (write_buffer s1) = proxy_banner
          \<and> rd (write_buffer s1) \<le> wr (write_buffer s1)
          \<and> sent s1 = sent s \<and> client_fd s1 = client_fd s \<and> origin_fd s1 = origin_fd s
          \<and> sel s1 (client_fd s) \<noteq> None \<and> sel s1 (origin_fd s) \<noteq> None"
  using assms
  by (auto simp: hello_read_def strcpy_at_def store_bytes_def buffer_write_ptr_def BUFFER_SIZE_def
        banner_length buffer_write_adv_def recv_def Let_def set_two_interests_def
        selector_set_interest_def readable_def poke_def
        split: option.splits prod.splits)


lemma hello_flush_sent:
  "hello_flush sends s = (CAPA, s2) \<Longrightarrow> rd (write_buffer s) \<le> wr (write_buffer s) \<Longrightarrow>
   client_fd s \<noteq> origin_fd s \<Longrightarrow>
   sent s2 (client_fd s) = sent s (client_fd s) @ readable (write_buffer s)"
proof (induction sends arbitrary: s)
  case Nil
  then show ?case by simp
next
  case (Cons x xs)
  let ?wb = "write_buffer s"
  show ?case
  proof (cases "send (wr ?wb - rd ?wb) x")
    case None
    then show ?thesis
      using Cons.prems(1) by (simp add: hello_write_def buffer_read_ptr_def)
  next
    case (Some n)
    then have n: "n \<le> wr ?wb - rd ?wb"
      by (auto simp: send_def split: send_in.splits)
    let ?s1 = "s\<lparr>write_buffer := buffer_read_adv ?wb n,
                 sent := (sent s)(client_fd s := sent s (client_fd s) @ take n (drop (rd ?wb) (data ?wb)))\<rparr>"
    show ?thesis
    proof (cases "rd ?wb + n = wr ?wb")
      case True
      then have "n = wr ?wb - rd ?wb" by simp
      then show ?thesis
        using Cons.prems Some True
        by (auto simp: hello_write_def buffer_read_ptr_def buffer_read_adv_def
              buffer_can_read_def readable_def send_all_def Let_def
              split: prod.splits if_splits dest!: set_two_interestsD)
    next
      case False
      then have lt: "rd ?wb + n < wr ?wb" using n Cons.prems(2) by simp
      then have step: "hello_write (client_fd s) x s = (HELLO, ?s1)"
        using Some False
        by (simp add: hello_write_def buffer_read_ptr_def buffer_read_adv_def
              buffer_can_read_def Let_def)
      then have run: "hello_flush xs ?s1 = (CAPA, s2)"
        using Cons.prems(1) by simp
      have "sent s2 (client_fd ?s1) = sent ?s1 (client_fd ?s1) @ readable (write_buffer ?s1)"
        by (rule Cons.IH [OF run]) (use lt Cons.prems(3) False in \<open>simp_all add: buffer_read_adv_def\<close>)
      moreover have "take n (drop (rd ?wb) (data ?wb)) @ readable (write_buffer ?s1)
                     = readable ?wb"
      proof -
        have "wr ?wb - rd ?wb = n + (wr ?wb - (rd ?wb + n))" using lt by simp
        then have "take (wr ?wb - rd ?wb) (drop (rd ?wb) (data ?wb))
              = take n (drop (rd ?wb) (data ?wb))
                @ take (wr ?wb - (rd ?wb + n)) (drop n (drop (rd ?wb) (data ?wb)))"
          by (simp only: take_add)
        then show ?thesis
          using False by (simp add: readable_def buffer_read_adv_def add.commute)
      qed
      ultimately show ?thesis by simp
    qed
  qed
qed

lemma hello_flush_all:
  assumes "rd (write_buffer s) \<le> wr (write_buffer s)"
    "sel s (client_fd s) \<noteq> None" "sel s (origin_fd s) \<noteq> None"
  shows "fst (hello_flush [Send (wr (write_buffer s) - rd (write_buffer s))] s) = CAPA"
  using assms
  by (auto simp: hello_write_def buffer_read_ptr_def send_def buffer_read_adv_def
        buffer_can_read_def Let_def set_two_interests_def selector_set_interest_def
        split: option.splits prod.splits)

lemma hello_state_run_banner:
  assumes "rd (write_buffer s) = 0" "wr (write_buffer s) = 0"
    "length (data (write_buffer s)) = BUFFER_SIZE" "g \<noteq> []"
    "sel s (origin_fd s) \<noteq> None" "sel s (client_fd s) \<noteq> None"
    "client_fd s \<noteq> origin_fd s"
  shows "(hello_state_run g sends s = Some (CAPA, out) \<longrightarrow>
            out = sent s (client_fd s) @ proxy_banner)
         \<and> hello_state_run g [Send (length proxy_banner)] s
            = Some (CAPA, sent s (client_fd s) @ proxy_banner)"
proof -
  from hello_read_fresh [OF assms(1-6)]
  obtain s1 where r: "hello_read (origin_fd s) (Recv g) s = Inr (HELLO, s1)"
    and b: "readable (write_buffer s1) = proxy_banner"
    and le: "rd (write_buffer s1) \<le> wr (write_buffer s1)"
    and f: "sent s1 = sent s" "client_fd s1 = client_fd s" "origin_fd s1 = origin_fd s"
    and g: "sel s1 (client_fd s) \<noteq> None" "sel s1 (origin_fd s) \<noteq> None"
    by blast
  have ne: "client_fd s1 \<noteq> origin_fd s1" using f assms(7) by simp
  have a: "hello_state_run g sends s = Some (CAPA, out) \<longrightarrow>
            out = sent s (client_fd s) @ proxy_banner"
  proof
    assume h: "hello_state_run g sends s = Some (CAPA, out)"
    obtain st s2 where fl: "hello_flush sends s1 = (st, s2)" by (cases "hello_flush sends s1")
    with h r have "st = CAPA" "out = sent s2 (client_fd s)"
      by (simp_all add: hello_state_run_def)
    with hello_flush_sent [OF _ le ne, of sends s2] fl f b
    show "out = sent s (client_fd s) @ proxy_banner" by simp
  qed
  have len: "wr (write_buffer s1) - rd (write_buffer s1) = length proxy_banner"
  proof -
    have "length (readable (write_buffer s1)) \<le> wr (write_buffer s1) - rd (write_buffer s1)"
      by (simp add: readable_def)
    moreover have "wr (write_buffer s1) = 30 \<and> rd (write_buffer s1) = 0"
      using r assms(1-3)
      by (auto simp: hello_read_def strcpy_at_def store_bytes_def buffer_write_ptr_def
            banner_length buffer_write_adv_def recv_def Let_def set_two_interests_def
            selector_set_interest_def split: option.splits prod.splits if_splits)
    ultimately show ?thesis by (simp add: banner_length)
  qed
  obtain st s2 where fl: "hello_flush [Send (length proxy_banner)] s1 = (st, s2)"
    by (cases "hello_flush [Send (length proxy_banner)] s1")
  have "st = CAPA"
    using hello_flush_all [of s1] le g f fl len by simp
  with hello_flush_sent [OF _ le ne, of "[Send (length proxy_banner)]" s2] fl f b r
  have "hello_state_run g [Send (length proxy_banner)] s
            = Some (CAPA, sent s (client_fd s) @ proxy_banner)"
    by (simp add: hello_state_run_def)
  with a show ?thesis by simp
qed

text \<open>
  C2, as the code has it. A session enters HELLO with an empty write buffer. Whatever
  non-empty greeting the origin sends, \<^verbatim>\<open>hello_read\<close> puts the banner
  \<^verbatim>\<open>+OK Proxy server POP3 ready.\r\n\<close> in the buffer and stores the greeting behind the
  write cursor without advancing it, so \<^verbatim>\<open>hello_write\<close> sends the client the banner and
  nothing else before the state changes to CAPA: the origin's greeting is not forwarded.
  Sending the whole banner at once does reach CAPA.
\<close>

theorem hello_sends_banner_only:
  assumes "rd (write_buffer s) = 0" "wr (write_buffer s) = 0"
    "length (data (write_buffer s)) = BUFFER_SIZE" "g \<noteq> []"
    "sel s (origin_fd s) \<noteq> None" "sel s (client_fd s) \<noteq> None"
    "client_fd s \<noteq> origin_fd s"
  shows "(hello_state_run g sends s = Some (CAPA, out) \<longrightarrow>
            out = sent s (client_fd s) @ proxy_banner)
         \<and> hello_state_run g [Send (length proxy_banner)] s
            = Some (CAPA, sent s (client_fd s) @ proxy_banner)"
  using assms by (rule hello_state_run_banner)

lemma example_session_fields:
  "client_fd example_session = 5" "origin_fd example_session = 6"
  "write_buffer example_session = buffer_init BUFFER_SIZE"
  "super_buffer example_session = buffer_init BUFFER_SIZE"
  "extern_read_buffer example_session = buffer_init BUFFER_SIZE"
  "sel example_session = [5 \<mapsto> OP_NOOP, 6 \<mapsto> OP_READ]"
  "sent example_session = (\<lambda>_. [])"
  "session example_session = pop3_session_init False"
  by (simp_all add: example_session_def connecting_def pop3_accepted_def Let_def
        set_two_interests_def selector_set_interest_def fun_upd_twist)

theorem hello_sends_banner_only_witness:
  "hello_state_run (''+OK hi'' @ crlf) [Send (length proxy_banner)] example_session
     = Some (CAPA, proxy_banner)"
  using hello_sends_banner_only [of example_session "''+OK hi'' @ crlf" "[]" "[]"]
  by (simp add: example_session_fields buffer_init_def)

text \<open>
  The claim as stated fails: when the origin greets \<^verbatim>\<open>+OK hi\r\n\<close>, the client has been
  sent the banner alone when the HELLO state is left, not the banner followed by the
  greeting.
\<close>

theorem hello_greeting_not_forwarded:
  "hello_state_run (''+OK hi'' @ crlf) [Send 2048] example_session = Some (CAPA, proxy_banner)
   \<and> hello_state_run (''+OK hi'' @ crlf) [Send 2048] example_session
       \<noteq> Some (CAPA, proxy_banner @ ''+OK hi'' @ crlf)"
proof -
  have "hello_state_run (''+OK hi'' @ crlf) [Send 2048] example_session
          = Some (CAPA, proxy_banner)"
    by code_simp
  then show ?thesis by simp
qed

section \<open>The counter of concurrent connections\<close>

lemma filter_update_count:
  "i < length xs \<Longrightarrow> \<not> P (xs ! i) \<Longrightarrow>
   length (filter P (xs[i := y])) = length (filter P xs) + (if P y then 1 else 0)"
proof (induction xs arbitrary: i)
  case Nil
  then show ?case by simp
next
  case (Cons x xs)
  then show ?case by (cases i) auto
qed

lemma proxy_step_counter:
  assumes "concurrent_connections (metricas p) = of_nat a - of_nat (ended_with_origin p)"
  shows "concurrent_connections (metricas (proxy_step e p))
         = of_nat (a + (if is_accept e then 1 else 0)) - of_nat (ended_with_origin (proxy_step e p))"
proof (cases e)
  case (Accept c n w r)
  then show ?thesis
    using assms
    by (simp add: pop3_passive_accept_def ended_with_origin_def Let_def terminal_def)
next
  case (Handler i st ofd)
  show ?thesis
  proof (cases "i < length (conns p) \<and> \<not> terminal (stm_current (conns p ! i))")
    case False
    then show ?thesis using assms Handler by auto
  next
    case True
    let ?c = "conns p ! i"
    let ?c1 = "?c\<lparr>stm_current := st,
                   conn_origin_fd := (case ofd of None \<Rightarrow> conn_origin_fd ?c | Some fd \<Rightarrow> fd)\<rparr>"
    let ?P = "\<lambda>c. terminal (stm_current c) \<and> conn_origin_fd c \<noteq> - 1"
    have cnt: "length (filter ?P ((conns p)[i := ?c1]))
               = length (filter ?P (conns p)) + (if ?P ?c1 then 1 else 0)"
      using True by (intro filter_update_count) simp_all
    show ?thesis
      using assms Handler True cnt
      by (simp add: ended_with_origin_def pop3_done_def Let_def)
  qed
qed

lemma proxy_run_counter:
  "concurrent_connections (metricas (proxy_run evs))
   = of_nat (accept_events evs) - of_nat (ended_with_origin (proxy_run evs))"
proof (induction evs rule: rev_induct)
  case Nil
  then show ?case
    by (simp add: proxy_run_def proxy_init_def accept_events_def ended_with_origin_def)
next
  case (snoc e evs)
  have "proxy_run (evs @ [e]) = proxy_step e (proxy_run evs)"
    by (simp add: proxy_run_def)
  with proxy_step_counter [OF snoc.IH, of e] show ?case
    by (simp add: accept_events_def)
qed

lemma proxy_step_length_eq:
  "accept_succeeds e \<Longrightarrow>
   length (conns (proxy_step e p)) = length (conns p) + (if is_accept e then 1 else 0)"
  by (cases e) (auto simp: pop3_passive_accept_def Let_def)

lemma proxy_run_length_eq:
  "list_all accept_succeeds evs \<Longrightarrow> length (conns (proxy_run evs)) = accept_events evs"
proof (induction evs rule: rev_induct)
  case Nil
  then show ?case by (simp add: proxy_run_def proxy_init_def accept_events_def)
next
  case (snoc e evs)
  have "proxy_run (evs @ [e]) = proxy_step e (proxy_run evs)"
    by (simp add: proxy_run_def)
  with proxy_step_length_eq [of e "proxy_run evs"] snoc show ?case
    by (auto simp: accept_events_def split: if_splits)
qed

lemma filter_three_count:
  "length xs = length (filter (\<lambda>c. \<not> T c) xs) + length (filter (\<lambda>c. T c \<and> Q c) xs)
               + length (filter (\<lambda>c. T c \<and> \<not> Q c) xs)"
  by (induction xs) auto

lemma conns_partition:
  "length (conns p) = live_sessions p + ended_with_origin p + ended_without_origin p"
  unfolding live_sessions_def ended_with_origin_def ended_without_origin_def
  using filter_three_count [of "conns p" "\<lambda>c. terminal (stm_current c)" "\<lambda>c. conn_origin_fd c \<noteq> - 1"]
  by simp

lemma filter_conj_count:
  "length (filter (\<lambda>c. A c \<and> B c) xs) \<le> length (filter A xs)"
  by (induction xs) auto

lemma established_le_live: "established p \<le> live_sessions p"
  unfolding established_def live_sessions_def
  by (rule filter_conj_count)

text \<open>
  C5, as the code is designed. \<open>metrics.concurrent_connections\<close> is incremented once for
  each accepted client connection, at accept, and decremented exactly once, at
  DONE/ERROR, for a session that has an origin descriptor; no other event of a session
  changes it, and a session that is done gets no further event. So, as long as every
  accept has succeeded and every session that has ended had an origin descriptor, the
  counter equals the number of sessions in a state other than DONE/ERROR, whether their
  origin connection is established yet or not; the sessions with an established origin
  are among them.
\<close>

theorem concurrent_connections_counts_live_sessions:
  "(list_all accept_succeeds evs \<and> ended_without_origin (proxy_run evs) = 0 \<longrightarrow>
      concurrent_connections (metricas (proxy_run evs)) = of_nat (live_sessions (proxy_run evs))
      \<and> established (proxy_run evs) \<le> live_sessions (proxy_run evs))
   \<and> (client \<noteq> - 1 \<longrightarrow>
        concurrent_connections (metricas (proxy_step (Accept client True True True) p))
          = concurrent_connections (metricas p) + 1
        \<and> live_sessions (proxy_step (Accept client True True True) p) = live_sessions p + 1)
   \<and> (i < length (conns p) \<and> \<not> terminal (stm_current (conns p ! i)) \<and> terminal st
        \<and> (case ofd of None \<Rightarrow> conn_origin_fd (conns p ! i) | Some fd \<Rightarrow> fd) \<noteq> - 1 \<longrightarrow>
        concurrent_connections (metricas (proxy_step (Handler i st ofd) p))
          = concurrent_connections (metricas p) - 1)
   \<and> (\<not> terminal st \<longrightarrow>
        concurrent_connections (metricas (proxy_step (Handler i st ofd) p))
          = concurrent_connections (metricas p))
   \<and> (i < length (conns p) \<and> terminal (stm_current (conns p ! i)) \<longrightarrow>
        proxy_step (Handler i st ofd) p = p)"
proof (intro conjI impI)
  assume h: "list_all accept_succeeds evs \<and> ended_without_origin (proxy_run evs) = 0"
  let ?p = "proxy_run evs"
  have "accept_events evs = live_sessions ?p + ended_with_origin ?p"
    using proxy_run_length_eq [of evs] conns_partition [of ?p] h by simp
  then show "concurrent_connections (metricas ?p) = of_nat (live_sessions ?p)"
    by (simp add: proxy_run_counter)
  show "established ?p \<le> live_sessions ?p" by (rule established_le_live)
next
  assume "client \<noteq> - 1"
  then show "concurrent_connections (metricas (proxy_step (Accept client True True True) p))
          = concurrent_connections (metricas p) + 1"
    and "live_sessions (proxy_step (Accept client True True True) p) = live_sessions p + 1"
    by (simp_all add: pop3_passive_accept_def Let_def live_sessions_def terminal_def)
next
  assume "i < length (conns p) \<and> \<not> terminal (stm_current (conns p ! i)) \<and> terminal st
        \<and> (case ofd of None \<Rightarrow> conn_origin_fd (conns p ! i) | Some fd \<Rightarrow> fd) \<noteq> - 1"
  then show "concurrent_connections (metricas (proxy_step (Handler i st ofd) p))
          = concurrent_connections (metricas p) - 1"
    by (simp add: pop3_done_def Let_def)
next
  assume "\<not> terminal st"
  then show "concurrent_connections (metricas (proxy_step (Handler i st ofd) p))
          = concurrent_connections (metricas p)"
    by (simp add: Let_def)
next
  assume "i < length (conns p) \<and> terminal (stm_current (conns p ! i))"
  then show "proxy_step (Handler i st ofd) p = p" by simp
qed

theorem concurrent_connections_counts_live_sessions_witness:
  "list_all accept_succeeds example_events
   \<and> ended_without_origin (proxy_run example_events) = 0
   \<and> concurrent_connections (metricas (proxy_run example_events)) = 2
   \<and> live_sessions (proxy_run example_events) = 2
   \<and> established (proxy_run example_events) = 1"
proof -
  have a: "list_all accept_succeeds example_events"
    by (simp add: example_events_def)
  have b: "ended_without_origin (proxy_run example_events) = 0"
    by (simp add: example_events_def proxy_run_def proxy_init_def pop3_passive_accept_def
          ended_without_origin_def terminal_def pop3_done_def Let_def)
  have c: "live_sessions (proxy_run example_events) = 2"
    by (simp add: example_events_def proxy_run_def proxy_init_def pop3_passive_accept_def
          live_sessions_def terminal_def pop3_done_def Let_def)
  have d: "established (proxy_run example_events) = 1"
    by (simp add: example_events_def proxy_run_def proxy_init_def pop3_passive_accept_def
          established_def terminal_def pop3_done_def Let_def)
  from concurrent_connections_counts_live_sessions [of example_events] a b c d
  show ?thesis by simp
qed

text \<open>
  The claim as stated fails. Right after a connection is accepted the counter is 1 while
  no session has an established origin connection: the session is counted from accept
  on.
\<close>

theorem concurrent_connections_not_established:
  "concurrent_connections (metricas (proxy_run [Accept 5 True True True])) = 1
   \<and> established (proxy_run [Accept 5 True True True]) = 0"
  by (simp add: proxy_run_def proxy_init_def pop3_passive_accept_def established_def
        terminal_def Let_def)

section \<open>The rewrite of the capability list\<close>

lemma poke_append:
  "length A = off \<Longrightarrow> length bytes \<le> k \<Longrightarrow>
   poke off bytes (A @ replicate k z) = A @ bytes @ replicate (k - length bytes) z"
  by (simp add: poke_def)

lemma store_bytes_append:
  "length A = off \<Longrightarrow> length bytes \<le> k \<Longrightarrow>
   store_bytes off bytes (A @ replicate k z) = Some (A @ bytes @ replicate (k - length bytes) z)"
  by (simp add: store_bytes_def poke_append)

lemma size_t_unat:
  assumes "3 \<le> n" "n + 13 < 2 ^ 64"
  shows "unat ((of_nat n :: size_t) - 3) = n - 3"
    and "unat ((of_nat n :: size_t) - 3 + 10) = n + 7"
    and "unat ((of_nat n :: size_t) - 3 + 10 + 5 + 1) = n + 13"
    and "\<not> (of_nat n :: size_t) < 3"
proof -
  have u: "\<And>m. m \<le> n + 13 \<Longrightarrow> unat (of_nat m :: size_t) = m"
    using assms(2) by (simp add: unat_of_nat)
  have e: "(of_nat n :: size_t) - 3 = of_nat (n - 3)"
    using assms(1) by simp
  have e2: "(of_nat n :: size_t) - 3 + 10 = of_nat (n + 7)"
    using assms(1) by simp
  have e3: "(of_nat n :: size_t) - 3 + 10 + 5 + 1 = of_nat (n + 13)"
    using assms(1) by simp
  show "unat ((of_nat n :: size_t) - 3) = n - 3"
    unfolding e by (rule u) simp
  show "unat ((of_nat n :: size_t) - 3 + 10) = n + 7"
    unfolding e2 by (rule u) simp
  show "unat ((of_nat n :: size_t) - 3 + 10 + 5 + 1) = n + 13"
    unfolding e3 by (rule u) simp
  have "unat (of_nat n :: size_t) = n" by (rule u) simp
  then show "\<not> (of_nat n :: size_t) < 3"
    using assms(1) by (simp add: word_less_nat_alt)
qed

lemma size_t_small:
  assumes "n < 3"
  shows "(of_nat n :: size_t) < 3"
proof -
  have "unat (of_nat n :: size_t) = n"
    using assms by (simp add: unat_of_nat)
  then show ?thesis using assms by (simp add: word_less_nat_alt)
qed

lemma c_string_terminated:
  "NUL \<notin> set xs \<Longrightarrow> c_string (xs @ NUL # rest) = Some xs"
  by (subst c_string_def, subst takeWhile_append2) auto

lemma toupper_not_NUL: "c \<noteq> NUL \<Longrightarrow> toupper_c c \<noteq> NUL"
  unfolding toupper_c_def NUL_def
  by (auto split: option.splits if_splits)

lemma to_upper_no_NUL: "NUL \<notin> set xs \<Longrightarrow> NUL \<notin> set (to_upper xs)"
proof (induction xs)
  case Nil
  then show ?case by (simp add: to_upper_def)
next
  case (Cons x xs)
  then have "toupper_c x \<noteq> NUL" by (intro toupper_not_NUL) auto
  with Cons show ?case by (auto simp: to_upper_def)
qed

text \<open>The block that the three copies leave, and the string in it.\<close>

lemma capa_block:
  assumes "3 \<le> length caps" "length caps + 13 < 2 ^ 64" "NUL \<notin> set caps"
  shows "Option.bind
           (Option.bind
              (store_bytes 0 (take (unat ((of_nat (length caps) :: size_t) - 3)) caps)
                 (replicate (unat ((of_nat (length caps) :: size_t) - 3 + of_nat (length needle)
                                    + of_nat (length eom) + 1)) NUL))
              (store_bytes (unat ((of_nat (length caps) :: size_t) - 3)) needle))
           (store_bytes (unat ((of_nat (length caps) :: size_t) - 3 + of_nat (length needle))) eom)
         = Some ((take (length caps - 3) caps @ needle @ eom) @ [NUL])"
proof -
  let ?n = "length caps"
  let ?A = "take (?n - 3) caps"
  have ln: "length needle = 10" "length eom = 5"
    by (simp_all add: needle_def eom_def crlf_def)
  have lA: "length ?A = ?n - 3" by simp
  have s1: "store_bytes 0 ?A (replicate (?n + 13) NUL) = Some (?A @ replicate 16 NUL)"
    using store_bytes_append [of "[]" 0 ?A "?n + 13" NUL] assms(1) by simp
  have s2: "store_bytes (?n - 3) needle (?A @ replicate 16 NUL)
            = Some (?A @ needle @ replicate 6 NUL)"
    using store_bytes_append [of ?A "?n - 3" needle 16 NUL] assms(1) by (simp add: ln)
  have s3: "store_bytes (?n + 7) eom (?A @ needle @ replicate 6 NUL)
            = Some ((?A @ needle @ eom) @ [NUL])"
    using store_bytes_append [of "?A @ needle" "?n + 7" eom 6 NUL] assms(1) by (simp add: ln)
  have z0: "unat ((of_nat ?n :: size_t) - 3) = ?n - 3"
    by (rule size_t_unat(1) [OF assms(1,2)])
  have z1: "unat ((of_nat ?n :: size_t) - 3 + of_nat (length needle)) = ?n + 7"
    using size_t_unat(2) [OF assms(1,2)] by (simp add: ln)
  have z2: "unat ((of_nat ?n :: size_t) - 3 + of_nat (length needle) + of_nat (length eom) + 1)
            = ?n + 13"
    using size_t_unat(3) [OF assms(1,2)] by (simp add: ln)
  show ?thesis
    by (simp only: z0 z1 z2 s1 s2 s3 Option.bind.bind_lunit)
qed


lemma response_process_capa_present:
  assumes "strstr (to_upper (capa_response (response_parser s))) needle \<noteq> None"
  shows "response_process_capa ok s =
           Inr (RESPONSE, s\<lparr>response_parser := (response_parser s)
                               \<lparr>capa_response := to_upper (capa_response (response_parser s))\<rparr>\<rparr>)"
  using assms by (simp add: response_process_capa_def Let_def)

lemma response_process_capa_no_memory:
  assumes "strstr (to_upper (capa_response (response_parser s))) needle = None"
  shows "response_process_capa False s =
           Inr (ERROR, s\<lparr>response_parser := (response_parser s)
                            \<lparr>capa_response := to_upper (capa_response (response_parser s))\<rparr>\<rparr>)"
  using assms by (simp add: response_process_capa_def Let_def)

lemma response_process_capa_too_short:
  assumes "strstr (to_upper (capa_response (response_parser s))) needle = None"
    and "length (capa_response (response_parser s)) < 3"
  shows "response_process_capa True s = Inl Wild_memcpy"
  using assms size_t_small [of "length (capa_response (response_parser s))"]
  by (simp add: response_process_capa_def Let_def to_upper_def)

lemma response_process_capa_rewrite:
  assumes lacks: "strstr (to_upper (capa_response (response_parser s))) needle = None"
    and len: "3 \<le> length (capa_response (response_parser s))"
    and nul: "NUL \<notin> set (capa_response (response_parser s))"
    and wb: "rd (super_buffer s) < wr (super_buffer s)
             \<or> (rd (super_buffer s) = 0 \<and> wr (super_buffer s) = 0)"
    and cap: "length (data (super_buffer s)) = BUFFER_SIZE"
    and fits: "length (capa_response (response_parser s)) + 13 \<le> BUFFER_SIZE"
  shows "\<exists>s'. response_process_capa True s = Inr (RESPONSE, s')
          \<and> capa_response (response_parser s')
              = take (length (capa_response (response_parser s)) - 3)
                  (to_upper (capa_response (response_parser s))) @ needle @ eom
          \<and> readable (super_buffer s') = capa_response (response_parser s')
          \<and> session s' = session s \<and> sent s' = sent s"
proof -
  let ?caps = "to_upper (capa_response (response_parser s))"
  let ?new = "take (length ?caps - 3) ?caps @ needle @ eom"
  have l: "length ?caps = length (capa_response (response_parser s))"
    by (simp add: to_upper_def)
  have l3: "3 \<le> length ?caps" using len l by simp
  have big: "length ?caps + 13 < 2 ^ 64" using fits l by (simp add: BUFFER_SIZE_def)
  have nn: "NUL \<notin> set ?caps" using nul by (rule to_upper_no_NUL)
  have nnew: "NUL \<notin> set ?new"
    using nn by (auto simp: needle_def eom_def crlf_def CR_def LF_def NUL_def dest: in_set_takeD)
  have blk: "Option.bind
           (Option.bind
              (store_bytes 0 (take (unat ((of_nat (length ?caps) :: size_t) - 3)) ?caps)
                 (replicate (unat ((of_nat (length ?caps) :: size_t) - 3 + of_nat (length needle)
                                    + of_nat (length eom) + 1)) NUL))
              (store_bytes (unat ((of_nat (length ?caps) :: size_t) - 3)) needle))
           (store_bytes (unat ((of_nat (length ?caps) :: size_t) - 3 + of_nat (length needle))) eom)
         = Some (?new @ [NUL])"
    by (rule capa_block [OF l3 big nn])
  have cs: "c_string (?new @ [NUL]) = Some ?new"
    using c_string_terminated [OF nnew, of "[]"] by simp
  have small: "\<not> (of_nat (length ?caps) :: size_t) < 3"
    by (rule size_t_unat(4) [OF l3 big])
  let ?wb = "buffer_drain (super_buffer s)"
  have d: "rd ?wb = 0 \<and> wr ?wb = 0 \<and> data ?wb = data (super_buffer s)"
    using wb by (auto simp: buffer_drain_eq buffer_can_read_def)
  have lnew: "length ?new = length ?caps + 12"
    using l3 by (simp add: needle_def eom_def crlf_def)
  have cp: "strcpy_at 0 ?new ?wb = Some (?wb\<lparr>data := poke 0 (?new @ [NUL]) (data ?wb)\<rparr>)"
    using d cap fits l lnew by (simp add: strcpy_at_def store_bytes_def)
  have rdbl: "readable (buffer_write_adv (?wb\<lparr>data := poke 0 (?new @ [NUL]) (data ?wb)\<rparr>)
                           (length ?new)) = ?new"
    using d by (simp add: readable_def buffer_write_adv_def poke_def)
  show ?thesis
    using lacks small blk cs cp rdbl d l
    by (simp add: response_process_capa_def Let_def buffer_write_ptr_def)
qed

lemma response_process_capa_overrun:
  assumes lacks: "strstr (to_upper (capa_response (response_parser s))) needle = None"
    and nul: "NUL \<notin> set (capa_response (response_parser s))"
    and long: "BUFFER_SIZE < length (capa_response (response_parser s)) + 13"
    and big: "length (capa_response (response_parser s)) + 13 < 2 ^ 64"
    and cap: "length (data (super_buffer s)) \<le> BUFFER_SIZE"
  shows "response_process_capa True s = Inl Buffer_overrun"
proof -
  let ?caps = "to_upper (capa_response (response_parser s))"
  let ?new = "take (length ?caps - 3) ?caps @ needle @ eom"
  have l: "length ?caps = length (capa_response (response_parser s))"
    by (simp add: to_upper_def)
  have l3: "3 \<le> length ?caps" using long l by (simp add: BUFFER_SIZE_def)
  have big': "length ?caps + 13 < 2 ^ 64" using big l by simp
  have nn: "NUL \<notin> set ?caps" using nul by (rule to_upper_no_NUL)
  have nnew: "NUL \<notin> set ?new"
    using nn by (auto simp: needle_def eom_def crlf_def CR_def LF_def NUL_def dest: in_set_takeD)
  have blk: "Option.bind
           (Option.bind
              (store_bytes 0 (take (unat ((of_nat (length ?caps) :: size_t) - 3)) ?caps)
                 (replicate (unat ((of_nat (length ?caps) :: size_t) - 3 + of_nat (length needle)
                                    + of_nat (length eom) + 1)) NUL))
              (store_bytes (unat ((of_nat (length ?caps) :: size_t) - 3)) needle))
           (store_bytes (unat ((of_nat (length ?caps) :: size_t) - 3 + of_nat (length needle))) eom)
         = Some (?new @ [NUL])"
    by (rule capa_block [OF l3 big' nn])
  have cs: "c_string (?new @ [NUL]) = Some ?new"
    using c_string_terminated [OF nnew, of "[]"] by simp
  have small: "\<not> (of_nat (length ?caps) :: size_t) < 3"
    by (rule size_t_unat(4) [OF l3 big'])
  let ?wb = "buffer_drain (super_buffer s)"
  have d: "data ?wb = data (super_buffer s)"
    by (simp add: buffer_drain_eq)
  have lnew: "length ?new = length ?caps + 12"
    using l3 by (simp add: needle_def eom_def crlf_def)
  have cp: "strcpy_at (wr ?wb) ?new ?wb = None"
    using d cap long l lnew by (simp add: strcpy_at_def store_bytes_def)
  show ?thesis
    using lacks small blk cs cp l
    by (simp add: response_process_capa_def Let_def buffer_write_ptr_def)
qed


lemma strstr_None:
  assumes "x \<in> set n" "x \<notin> set h"
  shows "strstr h n = None"
proof (rule ccontr)
  assume "strstr h n \<noteq> None"
  then have "sublist n h" by (simp only: strstr_sublist)
  then have "set n \<subseteq> set h" by (rule set_mono_sublist)
  with assms show False by auto
qed

lemma long_capa_list_facts:
  "length long_capa_list = 2043"
  "NUL \<notin> set long_capa_list"
  "strstr (to_upper long_capa_list) needle = None"
proof -
  show "length long_capa_list = 2043"
    by (simp add: long_capa_list_def crlf_def length_concat sum_list_replicate)
  have s: "set long_capa_list = {CHR ''U'', CHR ''S'', CHR ''E'', CHR ''R'', CR, LF, CHR ''.''}"
    by (auto simp: long_capa_list_def crlf_def)
  show "NUL \<notin> set long_capa_list"
    unfolding s by (simp add: NUL_def CR_def LF_def)
  have "CHR ''P'' \<notin> set (to_upper long_capa_list)"
    unfolding to_upper_def set_map s
    by (simp add: toupper_c_def CR_def LF_def)
  moreover have "CHR ''P'' \<in> set needle" by (simp add: needle_def)
  ultimately show "strstr (to_upper long_capa_list) needle = None"
    by (intro strstr_None)
qed

text \<open>
  For a short list the rewrite does what it is meant to: from \<^verbatim>\<open>USER\r\n.\r\n\<close> the
  super buffer gets \<^verbatim>\<open>USER\r\nPIPELINING\r\n.\r\n\<close>.
\<close>

lemma response_process_capa_short_list:
  "\<exists>s'. response_process_capa True
           (example_session\<lparr>response_parser :=
              \<lparr>rp_state = response_done, first_line_done = False,
               capa_response = ''user'' @ crlf @ ''.'' @ crlf\<rparr>\<rparr>) = Inr (RESPONSE, s')
        \<and> readable (super_buffer s') = ''USER'' @ crlf @ ''PIPELINING'' @ crlf @ ''.'' @ crlf"
proof -
  let ?s = "example_session\<lparr>response_parser :=
              \<lparr>rp_state = response_done, first_line_done = False,
               capa_response = ''user'' @ crlf @ ''.'' @ crlf\<rparr>\<rparr>"
  have u: "to_upper (''user'' @ crlf @ ''.'' @ crlf) = ''USER'' @ crlf @ ''.'' @ crlf"
    by (simp add: to_upper_def toupper_c_def crlf_def CR_def LF_def)
  have "CHR ''P'' \<notin> set (''USER'' @ crlf @ ''.'' @ crlf)"
    by (simp add: crlf_def CR_def LF_def)
  moreover have "CHR ''P'' \<in> set needle" by (simp add: needle_def)
  ultimately have lacks: "strstr (to_upper (capa_response (response_parser ?s))) needle = None"
    unfolding u [symmetric] by (intro strstr_None) simp_all
  have "\<exists>s'. response_process_capa True ?s = Inr (RESPONSE, s')
          \<and> capa_response (response_parser s')
              = take (length (capa_response (response_parser ?s)) - 3)
                  (to_upper (capa_response (response_parser ?s))) @ needle @ eom
          \<and> readable (super_buffer s') = capa_response (response_parser s')
          \<and> session s' = session ?s \<and> sent s' = sent ?s"
    by (rule response_process_capa_rewrite [OF lacks])
       (simp_all add: example_session_fields buffer_init_def BUFFER_SIZE_def crlf_def CR_def
          LF_def NUL_def)
  then show ?thesis
    by (auto simp: to_upper_def toupper_c_def needle_def eom_def crlf_def CR_def LF_def)
qed

text \<open>
  C1, at an input where the code departs from it. The origin's capability list is 2043
  bytes long and lacks PIPELINING. \<^verbatim>\<open>response_process_capa\<close> builds the new list in a
  heap block of exactly the size it needs, and then copies its 2055 bytes and their NUL
  with \<^verbatim>\<open>strcpy\<close> into the 2048 bytes of the super buffer: the copy runs past the end
  of the buffer, into the fields of the session that follow it.
\<close>

theorem response_process_capa_overruns_super_buffer:
  "length long_capa_list = 2043
   \<and> strstr (to_upper long_capa_list) needle = None
   \<and> response_process_capa True long_capa_session = Inl Buffer_overrun"
proof -
  have "response_process_capa True long_capa_session = Inl Buffer_overrun"
    by (rule response_process_capa_overrun)
       (simp_all add: long_capa_session_def long_capa_list_facts example_session_fields
          buffer_init_def BUFFER_SIZE_def)
  then show ?thesis by (simp add: long_capa_list_facts)
qed

section \<open>A failed spawn of the external transformation\<close>

lemma et_err_msg_length: "length et_err_msg = 46"
  by (simp add: et_err_msg_def crlf_def)

lemma open_external_transformation_fails:
  assumes "pipe_fd_read env = None \<or> pipe_fd_write env = None \<or> \<not> fork_ok env"
  shows "open_external_transformation env s = (et_status_err, s)"
  using assms
  by (auto simp: open_external_transformation_def split: option.splits prod.splits)

lemma et_init_spawn_failure:
  assumes fail: "pipe_fd_read env = None \<or> pipe_fd_write env = None \<or> \<not> fork_ok env"
    and buf: "rd (extern_read_buffer s) = 0" "wr (extern_read_buffer s) = 0"
             "length (data (extern_read_buffer s)) = BUFFER_SIZE"
    and cl: "sel s (client_fd s) \<noteq> None"
  shows "\<exists>s1. external_transformation_init env mail_end s = Inr s1
           \<and> readable (extern_read_buffer s1) = et_err_msg
           \<and> rd (extern_read_buffer s1) = 0 \<and> wr (extern_read_buffer s1) = 46
           \<and> sel s1 = (sel s)(client_fd s \<mapsto> OP_WRITE)
           \<and> \<not> error_wr (et s1) \<and> \<not> did_write (et s1) \<and> \<not> finish_wr (et s1)
           \<and> send_bytes_write (et s1) = 0
           \<and> client_fd s1 = client_fd s \<and> origin_fd s1 = origin_fd s
           \<and> extern_read_fd s1 = extern_read_fd s \<and> extern_write_fd s1 = extern_write_fd s
           \<and> sent s1 = sent s \<and> session s1 = session s"
  using buf cl
  by (auto simp: external_transformation_init_def open_external_transformation_fails [OF fail]
        strcpy_at_def store_bytes_def buffer_write_ptr_def buffer_write_adv_def BUFFER_SIZE_def
        et_err_msg_length selector_set_interest_def parse_mail_def readable_def poke_def Let_def
        split: option.splits prod.splits)

lemma et_write_after_spawn_failure:
  assumes b: "readable (extern_read_buffer s1) = et_err_msg"
             "rd (extern_read_buffer s1) = 0" "wr (extern_read_buffer s1) = 46"
    and e: "\<not> error_wr (et s1)" "\<not> did_write (et s1)" "\<not> finish_wr (et s1)"
           "send_bytes_write (et s1) = 0"
    and n: "0 < n"
  shows "\<exists>s2 m2. external_transformation_write (Send n) (s1, m) = Inr (EXTERNAL_TRANSFORMATION, s2, m2)
           \<and> sent s2 (client_fd s1) = sent s1 (client_fd s1) @ take n et_err_msg
           \<and> sel s2 = snd (selector_set_interest
                             (snd (selector_set_interest (sel s1) (extern_read_fd s1) OP_READ))
                             (client_fd s1) OP_NOOP)
           \<and> client_fd s2 = client_fd s1 \<and> origin_fd s2 = origin_fd s1
           \<and> extern_read_fd s2 = extern_read_fd s1 \<and> extern_write_fd s2 = extern_write_fd s1
           \<and> session s2 = session s1"
proof -
  have t: "take (min n 46) (data (extern_read_buffer s1)) = take n et_err_msg"
  proof -
    have "take (min n 46) (data (extern_read_buffer s1))
          = take n (take 46 (data (extern_read_buffer s1)))"
      by (simp add: min.commute)
    also have "\<dots> = take n et_err_msg"
      using b by (simp add: readable_def)
    finally show ?thesis .
  qed
  show ?thesis
    using b(2,3) e n t
    by (simp add: external_transformation_write_def buffer_read_ptr_def send_def Let_def
          set_interest_unchecked_def)
qed


lemma et_spawn_failure_stalls:
  assumes fail: "pipe_fd_read env = None \<or> pipe_fd_write env = None \<or> \<not> fork_ok env"
    and buf: "rd (extern_read_buffer s) = 0" "wr (extern_read_buffer s) = 0"
             "length (data (extern_read_buffer s)) = BUFFER_SIZE"
    and sl: "sel s (client_fd s) \<noteq> None" "sel s (origin_fd s) = Some OP_NOOP"
            "sel s (extern_read_fd s) = None" "sel s (extern_write_fd s) = None"
    and n: "0 < n"
  shows "\<exists>s2 m2. et_arrival_and_write env mail_end (Send n) (s, m)
                    = Inr (EXTERNAL_TRANSFORMATION, s2, m2)
           \<and> sent s2 (client_fd s) = sent s (client_fd s) @ take n et_err_msg
           \<and> armed s2 = []"
proof -
  from et_init_spawn_failure [OF fail buf sl(1), of mail_end]
  obtain s1 where i: "external_transformation_init env mail_end s = Inr s1"
    and b: "readable (extern_read_buffer s1) = et_err_msg"
           "rd (extern_read_buffer s1) = 0" "wr (extern_read_buffer s1) = 46"
    and s1: "sel s1 = (sel s)(client_fd s \<mapsto> OP_WRITE)"
    and e: "\<not> error_wr (et s1)" "\<not> did_write (et s1)" "\<not> finish_wr (et s1)"
           "send_bytes_write (et s1) = 0"
    and f: "client_fd s1 = client_fd s" "origin_fd s1 = origin_fd s"
           "extern_read_fd s1 = extern_read_fd s" "extern_write_fd s1 = extern_write_fd s"
           "sent s1 = sent s"
    by blast
  from et_write_after_spawn_failure [OF b e n, of m]
  obtain s2 m2 where
    w: "external_transformation_write (Send n) (s1, m) = Inr (EXTERNAL_TRANSFORMATION, s2, m2)"
    and o: "sent s2 (client_fd s1) = sent s1 (client_fd s1) @ take n et_err_msg"
    and s2: "sel s2 = snd (selector_set_interest
                             (snd (selector_set_interest (sel s1) (extern_read_fd s1) OP_READ))
                             (client_fd s1) OP_NOOP)"
    and g: "client_fd s2 = client_fd s1" "origin_fd s2 = origin_fd s1"
           "extern_read_fd s2 = extern_read_fd s1" "extern_write_fd s2 = extern_write_fd s1"
    by blast
  have ne: "extern_read_fd s \<noteq> client_fd s" "extern_write_fd s \<noteq> client_fd s"
    using sl by auto
  have sel2: "sel s2 = (sel s)(client_fd s \<mapsto> OP_NOOP)"
    using s2 s1 f sl ne by (simp add: selector_set_interest_def)
  have "armed s2 = []"
    using sel2 g f sl ne by (simp add: armed_def)
  with i w o f show ?thesis
    by (simp add: et_arrival_and_write_def)
qed

text \<open>
  C6, at an input where the code departs from it. A session has diverted a RETR response
  to the external transformation and \<^verbatim>\<open>pipe\<close> fails, so
  \<^verbatim>\<open>open_external_transformation\<close> returns \<^verbatim>\<open>et_status_err\<close>. The arrival hook
  writes \<^verbatim>\<open>-ERR could not open external transformation.\r\n\<close> and arms the client for
  writing; \<^verbatim>\<open>external_transformation_write\<close> sends that line, and then, \<open>error_wr\<close>
  being false, asks for read events of the child's output, which is not registered, and
  disarms the client. The state is still EXTERNAL_TRANSFORMATION, the client has been sent
  the error line and no terminator, and no descriptor of the session is armed: no handler
  of the session runs again, and the session never returns to REQUEST or RESPONSE.
\<close>

theorem et_spawn_failure_leaves_session_stalled:
  "\<exists>s2 m2. et_arrival_and_write no_pipe None (Send 46) (diverted_session, metricas proxy_init)
              = Inr (EXTERNAL_TRANSFORMATION, s2, m2)
     \<and> sent s2 5 = et_err_msg
     \<and> armed s2 = []"
proof -
  have "\<exists>s2 m2. et_arrival_and_write no_pipe None (Send 46) (diverted_session, metricas proxy_init)
                    = Inr (EXTERNAL_TRANSFORMATION, s2, m2)
           \<and> sent s2 (client_fd diverted_session)
               = sent diverted_session (client_fd diverted_session) @ take 46 et_err_msg
           \<and> armed s2 = []"
    by (rule et_spawn_failure_stalls)
       (simp_all add: no_pipe_def diverted_session_def example_session_fields buffer_init_def
          example_session_def connecting_def pop3_accepted_def Let_def set_two_interests_def
          selector_set_interest_def)
  then show ?thesis
    by (simp add: diverted_session_def example_session_fields et_err_msg_length)
qed

section \<open>The management commands CMD, MSG and QUIT\<close>

lemma arg_send [simp]:
  "arg (send_ok msg w) i = arg w i" "arg (send_error msg w) i = arg w i"
  by (simp_all add: arg_def send_ok_def send_error_def)

lemma argc_send [simp]:
  "argc (mg (send_ok msg w)) = argc (mg w)" "argc (mg (send_error msg w)) = argc (mg w)"
  by (simp_all add: send_ok_def send_error_def)

lemma arg_parameters [simp]: "arg (w\<lparr>parameters := p\<rparr>) i = arg w i"
  by (simp add: arg_def)

lemma parse_config_cmd_toggle:
  assumes "arg w 0 = Some c" "strcasecmp_eq ''CMD'' c" "argc (mg w) = 1"
  shows "parse_config ops m ma mb w =
           Inr (0, send_ok (if \<not> et_activated (parameters w)
                            then ''External transformations activated.''
                            else ''External transformations deactivated.'')
                     (w\<lparr>parameters := (parameters w)
                          \<lparr>et_activated := \<not> et_activated (parameters w)\<rparr>\<rparr>))"
  using assms by (simp add: parse_config_def Let_def)

text \<open>
  C7. In the CONFIG state the command \<^verbatim>\<open>CMD\<close> without argument (in any letter case) has
  \<^verbatim>\<open>parse_config\<close> invert \<open>et_activated\<close>, leave the rest of the configuration as it
  is, and reply with the resulting state; a second \<^verbatim>\<open>CMD\<close> gives back the original
  configuration.
\<close>

theorem cmd_toggles_et_activated:
  assumes "arg w 0 = Some c" "strcasecmp_eq ''CMD'' c" "argc (mg w) = 1"
  shows "\<exists>w1 w2. parse_config ops m ma mb w = Inr (0, w1)
           \<and> parameters w1 = (parameters w)\<lparr>et_activated := \<not> et_activated (parameters w)\<rparr>
           \<and> replies (mg w1) = replies (mg w) @
                [Send_ok (if et_activated (parameters w1)
                          then ''External transformations activated.''
                          else ''External transformations deactivated.'')]
           \<and> parse_config ops m mc md w1 = Inr (0, w2)
           \<and> parameters w2 = parameters w"
proof -
  let ?w1 = "send_ok (if \<not> et_activated (parameters w)
                            then ''External transformations activated.''
                            else ''External transformations deactivated.'')
                     (w\<lparr>parameters := (parameters w)
                          \<lparr>et_activated := \<not> et_activated (parameters w)\<rparr>\<rparr>)"
  have 1: "parse_config ops m ma mb w = Inr (0, ?w1)"
    using assms by (rule parse_config_cmd_toggle)
  have a: "arg ?w1 0 = Some c" "argc (mg ?w1) = 1"
    using assms by simp_all
  from parse_config_cmd_toggle [OF a(1) assms(2) a(2), of ops m mc md]
  have 2: "\<exists>w2. parse_config ops m mc md ?w1 = Inr (0, w2) \<and> parameters w2 = parameters w"
    by (simp add: send_ok_def)
  have 3: "parameters ?w1 = (parameters w)\<lparr>et_activated := \<not> et_activated (parameters w)\<rparr>"
    "replies (mg ?w1) = replies (mg w) @
                [Send_ok (if et_activated (parameters ?w1)
                          then ''External transformations activated.''
                          else ''External transformations deactivated.'')]"
    by (simp_all add: send_ok_def)
  from 1 2 3 show ?thesis by blast
qed

lemma example_word_arg:
  "arg (example_mgmt_word word st) 0 = Some word" "argc (mg (example_mgmt_word word st)) = 1"
  "et_activated (parameters (example_mgmt_word word st)) = False"
  "status_m (mg (example_mgmt_word word st)) = st"
  by (simp_all add: example_mgmt_word_def example_mgmt_def example_heap_def arg_def deref_def)

theorem cmd_toggles_et_activated_witness:
  "\<exists>w1 w2. parse_config example_media_ops (metricas proxy_init) True True
              (example_mgmt_word ''cmd'' ST_CONFIG) = Inr (0, w1)
     \<and> et_activated (parameters w1)
     \<and> replies (mg w1) = [Send_ok ''External transformations activated.'']
     \<and> parse_config example_media_ops (metricas proxy_init) True True w1 = Inr (0, w2)
     \<and> \<not> et_activated (parameters w2)"
proof -
  have c: "strcasecmp_eq ''CMD'' ''cmd''"
    by (simp add: strcasecmp_eq_def tolower_c_def)
  from cmd_toggles_et_activated
         [where w = "example_mgmt_word ''cmd'' ST_CONFIG" and c = "''cmd''"
            and ops = example_media_ops and m = "metricas proxy_init"
            and ma = True and mb = True and mc = True and md = True,
          OF example_word_arg(1) c example_word_arg(2)]
  obtain w1 w2 where
    "parse_config example_media_ops (metricas proxy_init) True True
              (example_mgmt_word ''cmd'' ST_CONFIG) = Inr (0, w1)"
    "parameters w1 = (parameters (example_mgmt_word ''cmd'' ST_CONFIG))
                       \<lparr>et_activated := \<not> et_activated (parameters (example_mgmt_word ''cmd'' ST_CONFIG))\<rparr>"
    "replies (mg w1) = replies (mg (example_mgmt_word ''cmd'' ST_CONFIG)) @
                [Send_ok (if et_activated (parameters w1)
                          then ''External transformations activated.''
                          else ''External transformations deactivated.'')]"
    "parse_config example_media_ops (metricas proxy_init) True True w1 = Inr (0, w2)"
    "parameters w2 = parameters (example_mgmt_word ''cmd'' ST_CONFIG)"
    by blast
  then have "parse_config example_media_ops (metricas proxy_init) True True
              (example_mgmt_word ''cmd'' ST_CONFIG) = Inr (0, w1)
     \<and> et_activated (parameters w1)
     \<and> replies (mg w1) = [Send_ok ''External transformations activated.'']
     \<and> parse_config example_media_ops (metricas proxy_init) True True w1 = Inr (0, w2)
     \<and> \<not> et_activated (parameters w2)"
    by (simp add: example_word_arg example_mgmt_word_def example_mgmt_def)
  then show ?thesis by blast
qed


lemma goodbye_eq:
  "goodbye w = Inr (- 1, w\<lparr>mg := (mg w)\<lparr>replies := replies (mg w) @ [Send_ok ''Goodbye.''],
                                      closed_m := True\<rparr>\<rparr>)"
  by (simp add: goodbye_def send_ok_def Let_def)

lemma arg_mg_status [simp]:
  "arg (w\<lparr>mg := (mg w)\<lparr>status_m := st, error_m := e\<rparr>\<rparr>) i = arg w i"
  by (simp add: arg_def)

text \<open>
  C9. In every state of the management connection (HELO, USER, PASS, CONFIG), and
  whatever error the line parser has reported, a command of one word that is QUIT in any
  letter case has \<^verbatim>\<open>parse_commands\<close> reply \<^verbatim>\<open>Goodbye.\<close> with \<^verbatim>\<open>send_ok\<close>, close the
  descriptor and return -1, upon which \<^verbatim>\<open>management_write\<close> unregisters the connection:
  the test for QUIT precedes the dispatch on the state.
\<close>

theorem quit_honoured_in_every_state:
  assumes "argc (mg w) = 1" "arg w 0 = Some q" "strcasecmp_eq ''QUIT'' q"
  shows "parse_commands ops m ma mb free_cmd (w\<lparr>mg := (mg w)\<lparr>status_m := st, error_m := e\<rparr>\<rparr>)
           = Inr (- 1, w\<lparr>mg := (mg w)\<lparr>status_m := st, error_m := e,
                                     replies := replies (mg w) @ [Send_ok ''Goodbye.''],
                                     closed_m := True\<rparr>\<rparr>)
         \<and> management_write ops m ma mb free_cmd si
               (w\<lparr>mg := (mg w)\<lparr>status_m := st, error_m := e\<rparr>\<rparr>)
           = Inr (True, w\<lparr>mg := (mg w)\<lparr>status_m := st, error_m := e,
                                     replies := replies (mg w) @ [Send_ok ''Goodbye.''],
                                     closed_m := True\<rparr>\<rparr>)"
  using assms
  by (simp add: parse_commands_def management_write_def goodbye_eq Let_def)

theorem quit_honoured_in_every_state_witness:
  "parse_commands example_media_ops (metricas proxy_init) True True (\<lambda>_ _ h. h)
     (example_mgmt_word ''Quit'' ST_HELO)
   = Inr (- 1, (example_mgmt_word ''Quit'' ST_HELO)
                 \<lparr>mg := (mg (example_mgmt_word ''Quit'' ST_HELO))
                    \<lparr>replies := [Send_ok ''Goodbye.''], closed_m := True\<rparr>\<rparr>)"
proof -
  have c: "strcasecmp_eq ''QUIT'' ''Quit''"
    by (simp add: strcasecmp_eq_def tolower_c_def)
  have e: "(example_mgmt_word ''Quit'' ST_HELO)
             \<lparr>mg := (mg (example_mgmt_word ''Quit'' ST_HELO))\<lparr>status_m := ST_HELO, error_m := PARSE_OK\<rparr>\<rparr>
           = example_mgmt_word ''Quit'' ST_HELO"
    by (simp add: example_mgmt_word_def example_mgmt_def)
  from quit_honoured_in_every_state
         [where w = "example_mgmt_word ''Quit'' ST_HELO" and q = "''Quit''" and st = ST_HELO
            and e = PARSE_OK and ops = example_media_ops and m = "metricas proxy_init"
            and ma = True and mb = True and free_cmd = "\<lambda>_ _ h. h" and si = True,
          OF example_word_arg(2) example_word_arg(1) c]
  show ?thesis
    unfolding e by (simp add: example_mgmt_word_def example_mgmt_def)
qed


lemma msg_not_cmd:
  assumes "strcasecmp_eq ''MSG'' c"
  shows "\<not> strcasecmp_eq ''CMD'' c"
proof
  assume "strcasecmp_eq ''CMD'' c"
  with assms have "map tolower_c ''CMD'' = map tolower_c ''MSG''"
    by (simp only: strcasecmp_eq_def)
  then show False by (simp add: tolower_c_def)
qed

lemma parse_config_msg:
  assumes "arg w 0 = Some c0" "strcasecmp_eq ''MSG'' c0" "argc (mg w) = 2" "arg w 1 = Some c1"
  shows "parse_config ops m True mb w =
           Inr (0, send_ok ''Done.''
                     (w\<lparr>hp := strcpy (next_free (hp w)) c1 (snd (malloc True (length c1) (hp w))),
                        parameters := (parameters w)
                          \<lparr>replacement_msg := Some (cmd_m (mg w) ! 1)\<rparr>\<rparr>))"
  using assms msg_not_cmd [OF assms(2)]
  by (simp add: parse_config_def success_def malloc_def)

lemma example_mgmt_args:
  "arg example_mgmt 0 = Some ''MSG''" "arg example_mgmt 1 = Some ''hello''"
  "argc (mg example_mgmt) = 2"
  by (simp_all add: example_mgmt_def example_heap_def arg_def deref_def)

text \<open>
  C8, at an input where the code departs from it. On \<^verbatim>\<open>MSG hello\<close> in the CONFIG state
  \<^verbatim>\<open>parse_config\<close> replies \<^verbatim>\<open>Done.\<close>, and \<^verbatim>\<open>parameters->replacement_msg\<close> then names
  the text; but it names the block of the argument vector (\<^verbatim>\<open>cmd[1]\<close>), not a copy
  owned by the configuration. The copy that was made sits in a block of 5 bytes for the 6
  bytes of \<^verbatim>\<open>hello\<close> and its NUL, and nothing names it. The block of the previous
  message is still allocated. Once the argument vector is released the configuration's
  pointer names no live block.
\<close>

theorem msg_stores_argument_pointer:
  "\<exists>w1. parse_config example_media_ops (metricas proxy_init) True True example_mgmt = Inr (0, w1)
     \<and> replies (mg w1) = [Send_ok ''Done.'']
     \<and> replacement_msg (parameters w1) = Some (cmd_m (mg example_mgmt) ! 1)
     \<and> cells (hp w1) 3 = Some \<lparr>allocated = 5, content = ''hello''\<rparr>
     \<and> \<not> terminated \<lparr>allocated = 5, content = ''hello''\<rparr>
     \<and> replacement_msg (parameters w1) \<noteq> Some 3
     \<and> cells (hp w1) 0 = cells (hp example_mgmt) 0
     \<and> replacement_msg (parameters example_mgmt) = Some 0
     \<and> deref (hp w1) (replacement_msg (parameters w1)) = Some ''hello''
     \<and> deref (free (cmd_m (mg example_mgmt) ! 1) (hp w1)) (replacement_msg (parameters w1)) = None"
proof -
  have c: "strcasecmp_eq ''MSG'' ''MSG''" by (simp add: strcasecmp_eq_def)
  show ?thesis
    unfolding parse_config_msg [OF example_mgmt_args(1) c example_mgmt_args(3) example_mgmt_args(2)]
    by (simp add: send_ok_def example_mgmt_def example_heap_def malloc_def strcpy_def
          terminated_def deref_def free_def)
qed

end
